theory Spec2Isabelle
  imports Complex_Main
begin

section \<open>ArborAI file search engine: filter predicate, collector, move and delete\<close>

text \<open>
  A shallow embedding of \<^verbatim>\<open>Arbor_Search_Engine/ArborAI_File_Search_Engine.py\<close>.
  The class \<^verbatim>\<open>FilterCriteria\<close> is a record, \<^verbatim>\<open>None\<close> is \<open>None\<close> of an option type,
  the file system, the clock, standard input and standard output are fields of an explicit
  state (\<open>world\<close>) that every operation reads and returns updated, and an exception of the
  operating system is a value \<open>Inl e\<close> of a sum type.
\<close>

subsection \<open>Python strings\<close>

text \<open>
  Strings are lists of bytes. \<^verbatim>\<open>str.lower\<close> and \<^verbatim>\<open>str.strip\<close> are modelled on ASCII:
  \<open>py_lower\<close> folds the letters \<^verbatim>\<open>A\<close> to \<^verbatim>\<open>Z\<close> and \<open>py_strip\<close> strips the ASCII white
  space. Python also folds the letters and strips the blanks of Unicode beyond ASCII, so
  for a name, a keyword or an answer with such characters the keyword filters and the
  stripped answers of the program can differ from the model. The statements below hold
  of the model for every string; none of them depends on how a character outside ASCII
  is folded or stripped.
\<close>

type_synonym path = string

definition nl :: string where
  "nl = [CHR 0x0A]"

definition lower_char :: "char \<Rightarrow> char" where
  "lower_char c =
     (case map_of (zip ''ABCDEFGHIJKLMNOPQRSTUVWXYZ'' ''abcdefghijklmnopqrstuvwxyz'') c of
        None \<Rightarrow> c
      | Some l \<Rightarrow> l)"

definition py_lower :: "string \<Rightarrow> string" where
  "py_lower s = map lower_char s"

text \<open>\<^verbatim>\<open>s.startswith(p)\<close> and \<^verbatim>\<open>s.endswith(p)\<close>.\<close>

fun startswith :: "string \<Rightarrow> string \<Rightarrow> bool" where
  "startswith s [] = True"
| "startswith [] (p # ps) = False"
| "startswith (c # cs) (p # ps) = (c = p \<and> startswith cs ps)"

definition endswith :: "string \<Rightarrow> string \<Rightarrow> bool" where
  "endswith s p = startswith (rev s) (rev p)"

text \<open>\<^verbatim>\<open>sub in s\<close>: \<open>sub\<close> occurs in \<open>s\<close> as a contiguous run.\<close>

fun py_in :: "string \<Rightarrow> string \<Rightarrow> bool" where
  "py_in sub [] = (sub = [])"
| "py_in sub (c # cs) = (startswith (c # cs) sub \<or> py_in sub cs)"

text \<open>
  \<^verbatim>\<open>s.strip()\<close>: the ASCII characters Python counts as white space are the tab, the line
  feed, the vertical tab, the form feed, the carriage return, the four separators
  \<open>0x1C\<close> to \<open>0x1F\<close> and the space.
\<close>

definition is_space :: "char \<Rightarrow> bool" where
  "is_space c =
     (c \<in> set [CHR 0x09, CHR 0x0A, CHR 0x0B, CHR 0x0C, CHR 0x0D,
                CHR 0x1C, CHR 0x1D, CHR 0x1E, CHR 0x1F, CHR 0x20])"

definition py_strip :: "string \<Rightarrow> string" where
  "py_strip s = rev (dropWhile is_space (rev (dropWhile is_space s)))"

text \<open>
  \<^verbatim>\<open>s.replace(old, new)\<close>: the occurrences of \<open>old\<close> are found from the left, each search
  starting after the previous occurrence; what a replacement leaves behind is not searched
  again. With an empty \<open>old\<close> Python puts \<open>new\<close> before every character and at the end.
\<close>

function replace_from :: "string \<Rightarrow> string \<Rightarrow> string \<Rightarrow> string" where
  "replace_from old new [] = []"
| "replace_from old new (c # cs) =
     (if old \<noteq> [] \<and> startswith (c # cs) old
      then new @ replace_from old new (drop (length old) (c # cs))
      else c # replace_from old new cs)"
  by pat_completeness auto
termination
  by (relation "measure (\<lambda>(old, new, s). length s)") (auto simp: neq_Nil_conv)

definition py_replace :: "string \<Rightarrow> string \<Rightarrow> string \<Rightarrow> string" where
  "py_replace s old new =
     (if old = [] then new @ concat (map (\<lambda>c. c # new) s) else replace_from old new s)"

text \<open>\<^verbatim>\<open>str(n)\<close> for a natural number, and the format \<^verbatim>\<open>{n:,}\<close> with a comma between
  groups of three digits.\<close>

definition digit_char :: "nat \<Rightarrow> char" where
  "digit_char d = ''0123456789'' ! d"

function str_nat :: "nat \<Rightarrow> string" where
  "str_nat n = (if n < 10 then [digit_char n] else str_nat (n div 10) @ [digit_char (n mod 10)])"
  by pat_completeness auto
termination
  by (relation "measure (\<lambda>n. n)") auto

declare str_nat.simps [simp del]

function group3 :: "string \<Rightarrow> string" where
  "group3 ds =
     (if length ds \<le> 3 then ds
      else group3 (take (length ds - 3) ds) @ '','' @ drop (length ds - 3) ds)"
  by pat_completeness auto
termination
  by (relation "measure length") auto

declare group3.simps [simp del]

definition fmt_commas :: "nat \<Rightarrow> string" where
  "fmt_commas n = group3 (str_nat n)"

text \<open>
  The format \<^verbatim>\<open>{x:.2f}\<close> of a non-negative number: two decimals, the exact value rounded to
  the nearest hundredth and a tie to the even one. The sizes it is applied to are
  \<open>n / 1024\<close> and \<open>n / 1024 / 1024\<close> for a byte count \<open>n\<close>, which a Python float holds
  exactly for every \<open>n\<close> below \<open>2 ^ 53\<close>; they are rationals here.
\<close>

definition round_half_even :: "rat \<Rightarrow> int" where
  "round_half_even q =
     (let f = \<lfloor>q\<rfloor>; r = q - of_int f in
      if r < 1 / 2 then f else if 1 / 2 < r then f + 1 else if even f then f else f + 1)"

definition fmt_2f :: "rat \<Rightarrow> string" where
  "fmt_2f q =
     (let n = nat (round_half_even (q * 100)) in
      str_nat (n div 100) @ ''.'' @ [digit_char (n mod 100 div 10), digit_char (n mod 10)])"

subsection \<open>The filter criteria\<close>

text \<open>The fields of \<^verbatim>\<open>FilterCriteria\<close>, and \<^verbatim>\<open>__init__\<close>, which sets no flag and no keyword.\<close>

record FilterCriteria =
  only_files :: bool
  only_dirs :: bool
  only_jar :: bool
  only_json :: bool
  size_less_than_1mb :: bool
  size_more_than_1mb :: bool
  exclude_keyword :: "string option"
  include_keyword :: "string option"
  modified_last_24h :: bool
  modified_over_24h :: bool
  show_tree :: bool

definition FilterCriteria_init :: FilterCriteria where
  "FilterCriteria_init =
     \<lparr> only_files = False, only_dirs = False, only_jar = False, only_json = False,
       size_less_than_1mb = False, size_more_than_1mb = False,
       exclude_keyword = None, include_keyword = None,
       modified_last_24h = False, modified_over_24h = False, show_tree = False \<rparr>"

subsection \<open>The file system and the console\<close>

text \<open>
  An error of the operating system carries the text \<^verbatim>\<open>str(e)\<close> that the program prints;
  \<^verbatim>\<open>PermissionError\<close> is the one class the program tells apart.
\<close>

datatype os_error = PermissionError string | OSError string

fun str_error :: "os_error \<Rightarrow> string" where
  "str_error (PermissionError m) = m"
| "str_error (OSError m) = m"

text \<open>
  A path names at most one node. A node has a kind, the results \<^verbatim>\<open>os.path.getsize\<close> and
  \<^verbatim>\<open>os.path.getmtime\<close> give for it (a size in bytes, a time in seconds, or the error they
  raise), for a directory the result of \<^verbatim>\<open>os.listdir\<close> (the names in the order the
  platform returns them, or the error), and the error \<^verbatim>\<open>os.remove\<close> raises for it, if any.
  A name that a listing returns and that names no node stands for an entry that cannot be
  examined (a dangling link, an entry removed meanwhile).
\<close>

datatype kind = Regular | Directory | Special

record node =
  kind :: kind
  st_size :: "os_error + nat"
  st_mtime :: "os_error + rat"
  listing :: "os_error + string list"
  remove_error :: "os_error option"

type_synonym filesystem = "path \<rightharpoonup> node"

text \<open>
  An entry record, the dictionary with the keys \<^verbatim>\<open>"Name"\<close>, \<^verbatim>\<open>"Type"\<close> and \<^verbatim>\<open>"Size"\<close> that
  the collector builds; a dictionary handed to \<^verbatim>\<open>json.dump\<close> is a list of keys with their
  values.
\<close>

record file_data =
  Name :: string
  Type :: string
  Size :: string

type_synonym json_dict = "(string \<times> string) list"

text \<open>
  The state: the file system, the reading of \<^verbatim>\<open>time.time()\<close> (one reading for the calls
  made while one entry is examined), the lines standard input still holds, and what has
  been printed, one string for each call of \<^verbatim>\<open>print\<close> and each prompt of \<^verbatim>\<open>input\<close>.

  The remaining fields are the platform: whether \<^verbatim>\<open>colorama\<close> was imported, the absolute
  path of a path (\<^verbatim>\<open>os.path.abspath\<close>), the directory of the script, and the library calls
  whose effect on the file system the program only forwards: \<^verbatim>\<open>os.makedirs\<close> with
  \<^verbatim>\<open>exist_ok=True\<close>, \<^verbatim>\<open>open\<close> followed by \<^verbatim>\<open>json.dump\<close>, \<^verbatim>\<open>shutil.move\<close> and
  \<^verbatim>\<open>shutil.rmtree\<close>. Each gives the exception it raises, if any, and the file system it
  leaves.
\<close>

record world =
  fs :: filesystem
  time_time :: rat
  stdin :: "string list"
  stdout :: "string list"
  COLORAMA_AVAILABLE :: bool
  os_path_abspath :: "path \<Rightarrow> path"
  script_dir :: path
  os_makedirs :: "path \<Rightarrow> filesystem \<Rightarrow> os_error option \<times> filesystem"
  json_dump :: "path \<Rightarrow> json_dict list \<Rightarrow> filesystem \<Rightarrow> os_error option \<times> filesystem"
  shutil_move :: "path \<Rightarrow> path \<Rightarrow> filesystem \<Rightarrow> os_error option \<times> filesystem"
  shutil_rmtree :: "path \<Rightarrow> filesystem \<Rightarrow> os_error option \<times> filesystem"

text \<open>
  \<^verbatim>\<open>input(prompt)\<close> writes the prompt and returns the next line; at the end of the input it
  raises \<^verbatim>\<open>EOFError\<close>, which nothing in the program catches, as nothing catches an error
  of \<^verbatim>\<open>os.makedirs\<close>.
\<close>

datatype exn = EOFError | Uncaught os_error

definition input_line :: "string \<Rightarrow> world \<Rightarrow> exn + (string \<times> world)" where
  "input_line prompt w =
     (case stdin w of
        [] \<Rightarrow> Inl EOFError
      | l # ls \<Rightarrow> Inr (l, w\<lparr>stdin := ls, stdout := stdout w @ [prompt]\<rparr>))"

definition quoted :: "string \<Rightarrow> string" where
  "quoted s = [CHR 0x27] @ s @ [CHR 0x27]"

text \<open>The check mark, the warning sign and the ballot cross of the messages, in UTF-8,
  and the escape sequences of \<^verbatim>\<open>colorama\<close>.\<close>

definition check_mark :: string where
  "check_mark = [CHR 0xE2, CHR 0x9C, CHR 0x93]"

definition warning_sign :: string where
  "warning_sign = [CHR 0xE2, CHR 0x9A, CHR 0xA0, CHR 0xEF, CHR 0xB8, CHR 0x8F]"

definition ballot_x :: string where
  "ballot_x = [CHR 0xE2, CHR 0x9C, CHR 0x97]"

definition Fore_RED :: string where
  "Fore_RED = CHR 0x1B # ''[31m''"

definition Fore_YELLOW :: string where
  "Fore_YELLOW = CHR 0x1B # ''[33m''"

definition Style_BRIGHT :: string where
  "Style_BRIGHT = CHR 0x1B # ''[1m''"

definition Style_RESET_ALL :: string where
  "Style_RESET_ALL = CHR 0x1B # ''[0m''"

definition print :: "string \<Rightarrow> world \<Rightarrow> world" where
  "print s w = w\<lparr>stdout := stdout w @ [s]\<rparr>"

text \<open>
  Two abbreviations for the statements below: the state after the strings \<open>out\<close> were
  printed, and the state after \<open>prompt\<close> was answered, \<open>rest\<close> being the input left. Both
  leave the file system and every other field as they are.
\<close>

definition printed :: "world \<Rightarrow> string list \<Rightarrow> world" where
  "printed w out = w\<lparr>stdout := stdout w @ out\<rparr>"

definition asked :: "world \<Rightarrow> string \<Rightarrow> string list \<Rightarrow> world" where
  "asked w prompt rest = w\<lparr>stdin := rest, stdout := stdout w @ [prompt]\<rparr>"

definition no_such_file :: "path \<Rightarrow> os_error" where
  "no_such_file p = OSError (''[Errno 2] No such file or directory: '' @ quoted p)"

definition os_path_exists :: "world \<Rightarrow> path \<Rightarrow> bool" where
  "os_path_exists w p = (fs w p \<noteq> None)"

definition os_path_isfile :: "world \<Rightarrow> path \<Rightarrow> bool" where
  "os_path_isfile w p = (case fs w p of None \<Rightarrow> False | Some n \<Rightarrow> kind n = Regular)"

definition os_path_isdir :: "world \<Rightarrow> path \<Rightarrow> bool" where
  "os_path_isdir w p = (case fs w p of None \<Rightarrow> False | Some n \<Rightarrow> kind n = Directory)"

definition os_path_getsize :: "world \<Rightarrow> path \<Rightarrow> os_error + nat" where
  "os_path_getsize w p = (case fs w p of None \<Rightarrow> Inl (no_such_file p) | Some n \<Rightarrow> st_size n)"

definition os_path_getmtime :: "world \<Rightarrow> path \<Rightarrow> os_error + rat" where
  "os_path_getmtime w p = (case fs w p of None \<Rightarrow> Inl (no_such_file p) | Some n \<Rightarrow> st_mtime n)"

definition os_listdir :: "world \<Rightarrow> path \<Rightarrow> os_error + string list" where
  "os_listdir w p =
     (case fs w p of
        None \<Rightarrow> Inl (no_such_file p)
      | Some n \<Rightarrow>
          if kind n = Directory then listing n
          else Inl (OSError (''[Errno 20] Not a directory: '' @ quoted p)))"

text \<open>\<^verbatim>\<open>os.path.join(a, b)\<close> and \<^verbatim>\<open>os.path.basename(p)\<close> of the POSIX path module.\<close>

definition os_path_join :: "path \<Rightarrow> string \<Rightarrow> path" where
  "os_path_join a b =
     (if startswith b ''/'' then b
      else if a = [] \<or> endswith a ''/'' then a @ b
      else a @ ''/'' @ b)"

definition os_path_basename :: "path \<Rightarrow> string" where
  "os_path_basename p = rev (takeWhile (\<lambda>c. c \<noteq> CHR ''/'') (rev p))"

subsection \<open>\<^verbatim>\<open>FilterCriteria.should_include\<close>\<close>

text \<open>
  A keyword is tested only when it is truthy: not \<^verbatim>\<open>None\<close> and not the empty string. The size
  filters sit in a \<^verbatim>\<open>try\<close> whose handler is \<^verbatim>\<open>pass\<close>; each modification-time filter sits in
  a \<^verbatim>\<open>try\<close> whose handler returns \<^verbatim>\<open>False\<close>.
\<close>

definition size_filters_exclude :: "FilterCriteria \<Rightarrow> world \<Rightarrow> path \<Rightarrow> bool" where
  "size_filters_exclude self w entry_path =
     (case os_path_getsize w entry_path of
        Inl e \<Rightarrow> False
      | Inr sz \<Rightarrow>
          (let file_size_kb = (of_nat sz :: rat) / 1024 in
           if size_less_than_1mb self \<and> 1024 \<le> file_size_kb then True
           else if size_more_than_1mb self \<and> file_size_kb < 1024 then True
           else False))"

definition should_include :: "FilterCriteria \<Rightarrow> world \<Rightarrow> string \<Rightarrow> path \<Rightarrow> bool \<Rightarrow> bool" where
  "should_include self w entry_name entry_path is_dir =
     (if only_files self \<and> is_dir then False
      else if only_dirs self \<and> \<not> is_dir then False
      else if is_dir then True
      else if only_jar self \<and> \<not> endswith (py_lower entry_name) ''.jar'' then False
      else if only_json self \<and> \<not> endswith (py_lower entry_name) ''.json'' then False
      else if size_filters_exclude self w entry_path then False
      else if (case exclude_keyword self of
                 None \<Rightarrow> False
               | Some k \<Rightarrow> k \<noteq> [] \<and> py_in (py_lower k) (py_lower entry_name)) then False
      else if (case include_keyword self of
                 None \<Rightarrow> False
               | Some k \<Rightarrow> k \<noteq> [] \<and> \<not> py_in (py_lower k) (py_lower entry_name)) then False
      else if modified_last_24h self
              \<and> (case os_path_getmtime w entry_path of
                    Inl e \<Rightarrow> True
                  | Inr mtime \<Rightarrow> 86400 < time_time w - mtime) then False
      else if modified_over_24h self
              \<and> (case os_path_getmtime w entry_path of
                    Inl e \<Rightarrow> True
                  | Inr mtime \<Rightarrow> time_time w - mtime \<le> 86400) then False
      else True)"

subsection \<open>\<^verbatim>\<open>show_directory_tree\<close>\<close>

text \<open>
  The printer calls itself for every directory it lists, so it is defined with fuel: one
  unit for every level it descends, and \<open>None\<close> when the fuel runs out. The listing is the
  one call of the \<^verbatim>\<open>try\<close> that can raise; \<open>show_entries\<close> is the \<^verbatim>\<open>for\<close> loop over the
  entries, and \<open>criteria\<close> being \<open>None\<close> switches the filter off.
\<close>

definition indent_str :: "nat \<Rightarrow> string" where
  "indent_str indent = concat (replicate indent ''  '')"

definition filtered_out :: "FilterCriteria option \<Rightarrow> world \<Rightarrow> string \<Rightarrow> path \<Rightarrow> bool \<Rightarrow> bool" where
  "filtered_out criteria w entry full_path is_dir =
     (case criteria of
        None \<Rightarrow> False
      | Some c \<Rightarrow> \<not> should_include c w entry full_path is_dir)"

fun show_directory_tree :: "nat \<Rightarrow> path \<Rightarrow> nat \<Rightarrow> FilterCriteria option \<Rightarrow> world \<Rightarrow> world option"
  and show_entries :: "nat \<Rightarrow> path \<Rightarrow> nat \<Rightarrow> FilterCriteria option \<Rightarrow> string list \<Rightarrow> world \<Rightarrow> world option"
where
  "show_directory_tree 0 path indent criteria w = None"
| "show_directory_tree (Suc fuel) path indent criteria w =
     (case os_listdir w path of
        Inl (PermissionError m) \<Rightarrow> Some (print (indent_str indent @ ''[Permission Denied]'') w)
      | Inl (OSError m) \<Rightarrow> Some (print (indent_str indent @ ''[Error: '' @ m @ '']'') w)
      | Inr entries \<Rightarrow> show_entries fuel path indent criteria entries w)"
| "show_entries fuel path indent criteria [] w = Some w"
| "show_entries fuel path indent criteria (entry # rest) w =
     (let full_path = os_path_join path entry;
          is_dir = os_path_isdir w full_path;
          prefix = indent_str indent @ ''|-- ''
      in
      if filtered_out criteria w entry full_path is_dir
      then show_entries fuel path indent criteria rest w
      else if is_dir
      then (case show_directory_tree fuel full_path (indent + 1) criteria
                   (print (prefix @ entry @ ''/'') w) of
              None \<Rightarrow> None
            | Some w' \<Rightarrow> show_entries fuel path indent criteria rest w')
      else (case os_path_getsize w full_path of
              Inr sz \<Rightarrow> show_entries fuel path indent criteria rest
                         (print (prefix @ entry @ '' ('' @ fmt_commas sz @ '' bytes)'') w)
            | Inl e \<Rightarrow> show_entries fuel path indent criteria rest (print (prefix @ entry) w)))"

subsection \<open>\<^verbatim>\<open>collect_files\<close>\<close>

definition size_str :: "world \<Rightarrow> path \<Rightarrow> bool \<Rightarrow> string" where
  "size_str w full_path is_dir =
     (if is_dir then ''0 bytes''
      else (case os_path_getsize w full_path of
              Inl e \<Rightarrow> ''Unknown''
            | Inr size_bytes \<Rightarrow>
                (let size_kb = (of_nat size_bytes :: rat) / 1024 in
                 if size_kb < 1024 then fmt_2f size_kb @ '' KB''
                 else fmt_2f (size_kb / 1024) @ '' MB'')))"

text \<open>The \<^verbatim>\<open>for\<close> loop of the regular collection: the records of the entries that pass the
  filter, in the order of the listing.\<close>

fun collect_entries :: "FilterCriteria option \<Rightarrow> world \<Rightarrow> path \<Rightarrow> string list \<Rightarrow> file_data list" where
  "collect_entries criteria w path [] = []"
| "collect_entries criteria w path (entry # rest) =
     (let full_path = os_path_join path entry;
          is_dir = os_path_isdir w full_path
      in
      if filtered_out criteria w entry full_path is_dir
      then collect_entries criteria w path rest
      else \<lparr> Name = entry,
             Type = (if is_dir then ''Directory'' else ''File''),
             Size = size_str w full_path is_dir \<rparr>
           # collect_entries criteria w path rest)"

definition rule60 :: string where
  "rule60 = replicate 60 (CHR ''='')"

definition print_file_info :: "path \<Rightarrow> world \<Rightarrow> world" where
  "print_file_info path w =
     (let w1 = print (''File: '' @ os_path_basename path)
                 (print ''This is just a file. Skipping filter process...'' w)
      in
      case os_path_getsize w path of
        Inl e \<Rightarrow> w1
      | Inr sz \<Rightarrow> print (''Location: '' @ os_path_abspath w path)
                   (print (''Size: '' @ fmt_commas sz @ '' bytes'') w1))"

text \<open>The test \<^verbatim>\<open>criteria and criteria.show_tree\<close>.\<close>

definition tree_mode :: "FilterCriteria option \<Rightarrow> bool" where
  "tree_mode criteria = (case criteria of None \<Rightarrow> False | Some c \<Rightarrow> show_tree c)"

text \<open>
  The result is \<open>None\<close> when the fuel of the tree printer runs out; otherwise the value
  returned, \<^verbatim>\<open>None\<close> or a list, with the state after the messages.
\<close>

definition collect_files ::
  "nat \<Rightarrow> path \<Rightarrow> FilterCriteria option \<Rightarrow> world \<Rightarrow> (file_data list option \<times> world) option" where
  "collect_files fuel path criteria w =
     (if \<not> os_path_exists w path
      then Some (None, print (''Error: Path '' @ quoted path @ '' does not exist.'') w)
      else if os_path_isfile w path
      then Some (None, print_file_info path w)
      else if tree_mode criteria
      then (case show_directory_tree fuel path 0 criteria
                   (print rule60 (print (''DIRECTORY TREE: '' @ path) (print (nl @ rule60) w))) of
              None \<Rightarrow> None
            | Some w' \<Rightarrow> Some (Some [], print (rule60 @ nl) w'))
      else (case os_listdir w path of
              Inl (PermissionError m) \<Rightarrow>
                Some (None, print (''Error: Permission denied accessing '' @ quoted path) w)
            | Inl (OSError m) \<Rightarrow>
                Some (None, print (''Error collecting files: '' @ m) w)
            | Inr entries \<Rightarrow>
                (let data = collect_entries criteria w path entries in
                 Some (Some data,
                       print (nl @ check_mark @ '' Collected '' @ str_nat (length data)
                              @ '' item(s) matching filters'') w))))"

subsection \<open>\<^verbatim>\<open>choice_1\<close>: collect and store\<close>

text \<open>The name of the JSON file, from the stripped answer \<open>name\<close>.\<close>

definition choice_1_json_name :: "string \<Rightarrow> string" where
  "choice_1_json_name name =
     (if name = [] then ''dataStore.json''
      else py_replace (py_replace name ''.json'' []) ''.'' [] @ ''.json'')"

text \<open>The path in the \<^verbatim>\<open>Data_Store\<close> folder beside the script, which is created when it is
  not there; \<open>msg\<close> is the message printed with it.\<close>

definition data_store_path :: "string \<Rightarrow> string \<Rightarrow> world \<Rightarrow> exn + (path \<times> world)" where
  "data_store_path json_name msg w =
     (let data_store_dir = os_path_join (script_dir w) ''Data_Store'' in
      case os_makedirs w data_store_dir (fs w) of
        (Some e, fs') \<Rightarrow> Inl (Uncaught e)
      | (None, fs') \<Rightarrow>
          (let json_path = os_path_join data_store_dir json_name in
           Inr (json_path, print (check_mark @ msg @ json_path) (w\<lparr>fs := fs'\<rparr>))))"

text \<open>The questions about the JSON file, up to its path.\<close>

definition choice_1_json_path :: "world \<Rightarrow> exn + (path \<times> world)" where
  "choice_1_json_path w =
     (case input_line (nl @ ''Create JSON file to store data? (yes/no): '') w of
        Inl e \<Rightarrow> Inl e
      | Inr (create_json, w1) \<Rightarrow>
          if py_lower create_json = ''yes''
          then (case input_line
                       ''What would you like to name your JSON file? (Press Enter for 'dataStore'): ''
                       (print ''Do not include .json extension in the name'' w1) of
                  Inl e \<Rightarrow> Inl e
                | Inr (name, w2) \<Rightarrow>
                    (let json_name = choice_1_json_name (py_strip name);
                         w3 = print (''File will be named: '' @ json_name) w2
                     in
                     case input_line
                            ''Where to store JSON? (Press Enter to store in program's Data_Store folder): ''
                            w3 of
                       Inl e \<Rightarrow> Inl e
                     | Inr (answer, w4) \<Rightarrow>
                         (let location = py_strip answer in
                          if location = []
                          then data_store_path json_name '' Using default location: '' w4
                          else if os_path_isdir w4 location
                          then (let json_path = os_path_join location json_name in
                                Inr (json_path, print (check_mark @ '' Saving to: '' @ json_path) w4))
                          else data_store_path json_name '' Fallback location: ''
                                 (print (warning_sign
                                         @ ''  Invalid directory. Using program's Data_Store folder instead.'')
                                    w4))))
          else (case input_line ''Enter full path for JSON file (include .json): '' w1 of
                  Inl e \<Rightarrow> Inl e
                | Inr (answer, w2) \<Rightarrow> Inr (py_strip answer, w2)))"

definition full_dict :: "file_data \<Rightarrow> json_dict" where
  "full_dict item = [(''Name'', Name item), (''Type'', Type item), (''Size'', Size item)]"

definition name_dict :: "file_data \<Rightarrow> json_dict" where
  "name_dict item = [(''Name'', Name item)]"

text \<open>What follows a collection that is not empty: the path, the format and the file.\<close>

definition choice_1_store :: "file_data list \<Rightarrow> world \<Rightarrow> exn + world" where
  "choice_1_store data w =
     (case choice_1_json_path w of
        Inl e \<Rightarrow> Inl e
      | Inr (json_path, w1) \<Rightarrow>
          (case input_line ''Choose (1 or 2): ''
                  (print ''2: Names only''
                    (print ''1: Full data (Name, Type, Size)''
                      (print (nl @ ''Storage options:'') w1))) of
             Inl e \<Rightarrow> Inl e
           | Inr (store_type, w2) \<Rightarrow>
               (let dicts = (if store_type = ''2'' then map name_dict data else map full_dict data) in
                case json_dump w2 json_path dicts (fs w2) of
                  (None, fs') \<Rightarrow>
                    Inr (print (nl @ check_mark @ '' Data saved to: '' @ json_path) (w2\<lparr>fs := fs'\<rparr>))
                | (Some e, fs') \<Rightarrow>
                    Inr (print (''Error saving JSON: '' @ str_error e) (w2\<lparr>fs := fs'\<rparr>)))))"

definition choice_1 :: "nat \<Rightarrow> FilterCriteria option \<Rightarrow> world \<Rightarrow> (exn + world) option" where
  "choice_1 fuel criteria w =
     (case input_line (nl @ ''Enter directory path: '') w of
        Inl e \<Rightarrow> Some (Inl e)
      | Inr (path, w1) \<Rightarrow>
          (case collect_files fuel path criteria w1 of
             None \<Rightarrow> None
           | Some (None, w2) \<Rightarrow> Some (Inr w2)
           | Some (Some data, w2) \<Rightarrow>
               if length data = 0
               then Some (Inr (print ''No files collected (filters may have excluded everything).'' w2))
               else Some (choice_1_store data w2)))"

subsection \<open>\<^verbatim>\<open>choice_3\<close>: move\<close>

definition move_and_report :: "path \<Rightarrow> path \<Rightarrow> world \<Rightarrow> world" where
  "move_and_report source destination w =
     (case shutil_move w source destination (fs w) of
        (None, fs') \<Rightarrow>
          print (check_mark @ '' Moved '' @ quoted source @ '' to '' @ quoted destination)
            (w\<lparr>fs := fs'\<rparr>)
      | (Some e, fs') \<Rightarrow> print (''Error moving: '' @ str_error e) (w\<lparr>fs := fs'\<rparr>))"

definition choice_3 :: "FilterCriteria option \<Rightarrow> world \<Rightarrow> exn + world" where
  "choice_3 criteria w =
     (case input_line (nl @ ''Enter path of file/directory to move: '') w of
        Inl e \<Rightarrow> Inl e
      | Inr (source, w1) \<Rightarrow>
          if \<not> os_path_exists w1 source
          then Inr (print ''Error: Source path does not exist.'' w1)
          else (case input_line ''Enter destination path: '' w1 of
                  Inl e \<Rightarrow> Inl e
                | Inr (destination, w2) \<Rightarrow>
                    if os_path_isdir w2 source
                    then (case input_line ''Moving a directory. Continue? (yes/no): '' w2 of
                            Inl e \<Rightarrow> Inl e
                          | Inr (confirm, w3) \<Rightarrow>
                              if py_lower confirm \<noteq> ''yes''
                              then Inr (print ''Move cancelled.'' w3)
                              else Inr (move_and_report source destination w3))
                    else Inr (move_and_report source destination w2)))"

subsection \<open>\<^verbatim>\<open>choice_4\<close>: delete\<close>

text \<open>
  \<^verbatim>\<open>os.remove\<close>: the node goes, and its name goes from the listing of the directory that
  holds it. It raises for a path that names nothing, for a directory, and where the node
  says so.
\<close>

definition unlinked :: "path \<Rightarrow> filesystem \<Rightarrow> filesystem" where
  "unlinked p f =
     (\<lambda>q. if q = p then None
          else map_option
                 (\<lambda>n. n\<lparr>listing := map_sum id (filter (\<lambda>e. os_path_join q e \<noteq> p)) (listing n)\<rparr>)
                 (f q))"

definition os_remove :: "path \<Rightarrow> world \<Rightarrow> os_error + world" where
  "os_remove p w =
     (case fs w p of
        None \<Rightarrow> Inl (no_such_file p)
      | Some n \<Rightarrow>
          if kind n = Directory then Inl (OSError (''[Errno 21] Is a directory: '' @ quoted p))
          else (case remove_error n of
                  Some e \<Rightarrow> Inl e
                | None \<Rightarrow> Inr (w\<lparr>fs := unlinked p (fs w)\<rparr>)))"

text \<open>The loop over the matched entries: \<open>deleted\<close> counts the removals done so far.\<close>

fun delete_matching :: "path \<Rightarrow> file_data list \<Rightarrow> nat \<Rightarrow> world \<Rightarrow> nat \<times> world" where
  "delete_matching target [] deleted w = (deleted, w)"
| "delete_matching target (item # rest) deleted w =
     (let file_path = os_path_join target (Name item) in
      if os_path_isfile w file_path
      then (case os_remove file_path w of
              Inr w' \<Rightarrow>
                delete_matching target rest (deleted + 1)
                  (print (''  '' @ check_mark @ '' Deleted: '' @ Name item) w')
            | Inl e \<Rightarrow>
                delete_matching target rest deleted
                  (print (''  '' @ ballot_x @ '' Error deleting '' @ Name item @ '': '' @ str_error e) w))
      else delete_matching target rest deleted w)"

fun print_names :: "file_data list \<Rightarrow> world \<Rightarrow> world" where
  "print_names [] w = w"
| "print_names (item # rest) w = print_names rest (print (''  - '' @ Name item) w)"

text \<open>The branch for a directory with filters, after the collection.\<close>

definition delete_filtered :: "path \<Rightarrow> file_data list option \<Rightarrow> world \<Rightarrow> exn + world" where
  "delete_filtered target data w =
     (case data of
        None \<Rightarrow> Inr (print ''No files match filters. Nothing to delete.'' w)
      | Some [] \<Rightarrow> Inr (print ''No files match filters. Nothing to delete.'' w)
      | Some (item # rest) \<Rightarrow>
          (let items = item # rest;
               w1 = print_names items
                      (print (nl @ ''Files to delete ('' @ str_nat (length items) @ ''):'') w)
           in
           case input_line (nl @ ''Delete all '' @ str_nat (length items) @ '' file(s)? (yes/no): '') w1 of
             Inl e \<Rightarrow> Inl e
           | Inr (confirm, w2) \<Rightarrow>
               if py_lower confirm = ''yes''
               then (case delete_matching target items 0 w2 of
                       (deleted, w3) \<Rightarrow>
                         Inr (print (nl @ check_mark @ '' Deleted '' @ str_nat deleted @ ''/''
                                     @ str_nat (length items) @ '' file(s)'') w3))
               else Inr w2))"

definition remove_and_report :: "path \<Rightarrow> world \<Rightarrow> world" where
  "remove_and_report target w =
     (case os_remove target w of
        Inr w' \<Rightarrow> print (check_mark @ '' Deleted: '' @ target) w'
      | Inl e \<Rightarrow> print (''Error deleting: '' @ str_error e) w)"

definition rmtree_and_report :: "path \<Rightarrow> world \<Rightarrow> world" where
  "rmtree_and_report target w =
     (case shutil_rmtree w target (fs w) of
        (None, fs') \<Rightarrow> print (check_mark @ '' Deleted: '' @ target) (w\<lparr>fs := fs'\<rparr>)
      | (Some e, fs') \<Rightarrow> print (''Error deleting: '' @ str_error e) (w\<lparr>fs := fs'\<rparr>))"

definition print_warning :: "world \<Rightarrow> world" where
  "print_warning w =
     (if COLORAMA_AVAILABLE w
      then print (Fore_YELLOW @ ''Proceed with caution.'' @ Style_RESET_ALL)
             (print (Fore_RED @ Style_BRIGHT @ nl @ warning_sign
                     @ ''  WARNING: DELETION IS PERMANENT!'' @ Style_RESET_ALL) w)
      else print (nl @ warning_sign @ ''  WARNING: DELETION IS PERMANENT!'') w)"

definition choice_4 :: "nat \<Rightarrow> FilterCriteria option \<Rightarrow> world \<Rightarrow> (exn + world) option" where
  "choice_4 fuel criteria w =
     (case input_line (nl @ ''Enter path to delete: '') (print_warning w) of
        Inl e \<Rightarrow> Some (Inl e)
      | Inr (target, w1) \<Rightarrow>
          if \<not> os_path_exists w1 target
          then Some (Inr (print (''Error: Path '' @ quoted target @ '' does not exist.'') w1))
          else if os_path_isfile w1 target
          then (case input_line (''Delete '' @ quoted target @ ''? (yes/no): '') w1 of
                  Inl e \<Rightarrow> Some (Inl e)
                | Inr (confirm, w2) \<Rightarrow>
                    if py_lower confirm = ''yes'' then Some (Inr (remove_and_report target w2))
                    else Some (Inr w2))
          else if os_path_isdir w1 target
          then (case criteria of
                  Some c \<Rightarrow>
                    (case collect_files fuel target criteria
                            (print (nl @ ''Filters active - will delete only matching files in directory.'') w1) of
                       None \<Rightarrow> None
                     | Some (data, w2) \<Rightarrow> Some (delete_filtered target data w2))
                | None \<Rightarrow>
                    (case input_line (''Delete ENTIRE directory '' @ quoted target
                                      @ '' and all contents? (yes/no): '') w1 of
                       Inl e \<Rightarrow> Some (Inl e)
                     | Inr (confirm, w2) \<Rightarrow>
                         if py_lower confirm = ''yes'' then Some (Inr (rmtree_and_report target w2))
                         else Some (Inr w2)))
          else Some (Inr w1))"

subsection \<open>The file name as the specification words it\<close>

text \<open>
  The specification's description of the name: a \<^verbatim>\<open>.json\<close> suffix is stripped, then all
  dots, and a single \<^verbatim>\<open>.json\<close> is appended. It is compared with \<open>choice_1_json_name\<close>
  below.
\<close>

definition spec_json_name :: "string \<Rightarrow> string" where
  "spec_json_name name =
     (if name = [] then ''dataStore.json''
      else filter (\<lambda>c. c \<noteq> CHR ''.'')
             (if endswith name ''.json'' then take (length name - 5) name else name)
           @ ''.json'')"

subsection \<open>What a batch of removals leaves\<close>

text \<open>
  For the statements about the delete loop: the file system without the nodes at the paths
  \<open>R\<close> (and without their names in the listings), the paths \<^verbatim>\<open>os.remove\<close> removes without
  an error (regular files whose node raises none), those among the paths of the matched
  entries, and the line printed when a removal fails.
\<close>

definition removed_fs :: "path set \<Rightarrow> filesystem \<Rightarrow> filesystem" where
  "removed_fs R f =
     (\<lambda>q. if q \<in> R then None
          else map_option
                 (\<lambda>n. n\<lparr>listing := map_sum id (filter (\<lambda>e. os_path_join q e \<notin> R)) (listing n)\<rparr>)
                 (f q))"

definition removable :: "world \<Rightarrow> path \<Rightarrow> bool" where
  "removable w p =
     (case fs w p of None \<Rightarrow> False | Some n \<Rightarrow> kind n = Regular \<and> remove_error n = None)"

definition removed_paths :: "world \<Rightarrow> path \<Rightarrow> file_data list \<Rightarrow> path set" where
  "removed_paths w target items =
     {p \<in> (\<lambda>item. os_path_join target (Name item)) ` set items. removable w p}"

definition error_line :: "file_data \<Rightarrow> os_error \<Rightarrow> string" where
  "error_line item e = ''  '' @ ballot_x @ '' Error deleting '' @ Name item @ '': '' @ str_error e"

subsection \<open>Well-formed file systems and a small example\<close>

text \<open>
  What the tree printer needs to return: the paths of the directories have a bounded
  length, and the names of a listing are not empty and hold no leading separator, as the
  names \<^verbatim>\<open>os.listdir\<close> returns.
\<close>

definition dirs_within :: "nat \<Rightarrow> filesystem \<Rightarrow> bool" where
  "dirs_within N f = (\<forall>p n. f p = Some n \<and> kind n = Directory \<longrightarrow> length p \<le> N)"

definition names_plain :: "filesystem \<Rightarrow> bool" where
  "names_plain f =
     (\<forall>p n names. f p = Some n \<and> listing n = Inr names \<longrightarrow>
        (\<forall>e \<in> set names. e \<noteq> [] \<and> \<not> startswith e ''/''))"

text \<open>
  The example: a directory \<^verbatim>\<open>d\<close> with the files \<^verbatim>\<open>a.json\<close> (10 bytes) and \<^verbatim>\<open>b.txt\<close>
  (exactly 1024 KiB), and a directory \<^verbatim>\<open>locked\<close> that cannot be listed.
\<close>

definition regular_file :: "nat \<Rightarrow> rat \<Rightarrow> node" where
  "regular_file sz mtime =
     \<lparr> kind = Regular, st_size = Inr sz, st_mtime = Inr mtime,
       listing = Inl (OSError ''[Errno 20] Not a directory''), remove_error = None \<rparr>"

definition directory :: "string list \<Rightarrow> node" where
  "directory names =
     \<lparr> kind = Directory, st_size = Inr 4096, st_mtime = Inr 0,
       listing = Inr names, remove_error = None \<rparr>"

definition locked_directory :: node where
  "locked_directory =
     \<lparr> kind = Directory, st_size = Inr 4096, st_mtime = Inr 0,
       listing = Inl (PermissionError ''[Errno 13] Permission denied''), remove_error = None \<rparr>"

definition example_fs :: filesystem where
  "example_fs =
     [''d'' \<mapsto> directory [''a.json'', ''b.txt''],
      ''d/a.json'' \<mapsto> regular_file 10 0,
      ''d/b.txt'' \<mapsto> regular_file 1048576 0,
      ''locked'' \<mapsto> locked_directory]"

definition example_world :: "string list \<Rightarrow> world" where
  "example_world inp =
     \<lparr> fs = example_fs, time_time = 100, stdin = inp, stdout = [],
       COLORAMA_AVAILABLE = False,
       os_path_abspath = (\<lambda>p. ''/home/user/'' @ p), script_dir = ''/opt/arbor'',
       os_makedirs = (\<lambda>p f. (None, f)),
       json_dump = (\<lambda>p d f. (None, f(p \<mapsto> regular_file 0 100))),
       shutil_move = (\<lambda>s d f. (None, (f(s := None))(d := f s))),
       shutil_rmtree = (\<lambda>p f. (None, f(p := None))) \<rparr>"

section \<open>The claims\<close>

subsection \<open>The filter predicate\<close>

text \<open>
  C9. For every entry (any name, path, and is-directory flag), \<open>should_include\<close> on a
  freshly constructed \<^verbatim>\<open>FilterCriteria\<close>, with no flag set and no keyword, returns true.
\<close>

theorem should_include_no_flags:
  "should_include FilterCriteria_init w entry_name entry_path is_dir"
  by (simp add: should_include_def FilterCriteria_init_def size_filters_exclude_def split: sum.split)

text \<open>
  C3. When the files-only flag and the directories-only flag are both set, \<open>should_include\<close>
  returns false for every entry, file or directory.
\<close>

theorem files_only_and_dirs_only_match_nothing:
  "only_files c \<Longrightarrow> only_dirs c \<Longrightarrow> \<not> should_include c w entry_name entry_path is_dir"
  by (simp add: should_include_def)

theorem files_only_and_dirs_only_match_nothing_witness:
  "\<not> should_include (FilterCriteria_init\<lparr>only_files := True, only_dirs := True\<rparr>)
        (example_world []) ''a.json'' ''d/a.json'' False
   \<and> \<not> should_include (FilterCriteria_init\<lparr>only_files := True, only_dirs := True\<rparr>)
        (example_world []) ''d'' ''d'' True"
  using files_only_and_dirs_only_match_nothing
          [of "FilterCriteria_init\<lparr>only_files := True, only_dirs := True\<rparr>"
              "example_world []" "''a.json''" "''d/a.json''" False]
        files_only_and_dirs_only_match_nothing
          [of "FilterCriteria_init\<lparr>only_files := True, only_dirs := True\<rparr>"
              "example_world []" "''d''" "''d''" True]
  by (simp add: FilterCriteria_init_def)

text \<open>
  C4. For every directory entry, provided the files-only flag is not set, \<open>should_include\<close>
  returns true whatever the extension, size, keyword and modification-time filters are; in
  particular a directory named \<^verbatim>\<open>secret.jar\<close> passes when only the jar-only filter is set.
\<close>

theorem directory_passes_file_filters:
  "(\<not> only_files c \<longrightarrow> should_include c w entry_name entry_path True)
   \<and> should_include (FilterCriteria_init\<lparr>only_jar := True\<rparr>) w ''secret.jar'' entry_path True"
  by (simp add: should_include_def FilterCriteria_init_def)

theorem directory_passes_file_filters_witness:
  "should_include (FilterCriteria_init\<lparr>only_jar := True, only_json := True, size_more_than_1mb := True,
                     include_keyword := Some ''log'', modified_last_24h := True\<rparr>)
     (example_world []) ''d'' ''d'' True
   \<and> should_include (FilterCriteria_init\<lparr>only_jar := True\<rparr>) (example_world []) ''secret.jar'' ''secret.jar'' True"
  using directory_passes_file_filters
          [where c = "FilterCriteria_init\<lparr>only_jar := True, only_json := True, size_more_than_1mb := True,
                     include_keyword := Some ''log'', modified_last_24h := True\<rparr>"
             and w = "example_world []" and entry_name = "''d''" and entry_path = "''d''"]
        directory_passes_file_filters
          [where c = "FilterCriteria_init" and w = "example_world []" and entry_name = "''d''"
             and entry_path = "''secret.jar''"]
  by (simp add: FilterCriteria_init_def)

text \<open>
  C2. For an entry that is not a directory. When the size cannot be read, the size filters
  exclude nothing (fail-open): an entry that no other filter tests is included whatever
  the two size flags are, and in general the answer is the one the same criteria give with
  both size filters off. When the modification time cannot be read and one of the two
  modification-time filters is set, the entry is excluded (fail-closed).
\<close>

lemma size_filters_exclude_unreadable:
  "os_path_getsize w p = Inl e \<Longrightarrow> size_filters_exclude c w p = False"
  by (simp add: size_filters_exclude_def)

lemma size_filters_exclude_off:
  "size_filters_exclude (c\<lparr>size_less_than_1mb := False, size_more_than_1mb := False\<rparr>) w p = False"
  by (simp add: size_filters_exclude_def split: sum.split)

theorem stat_failure_policies:
  "(os_path_getsize w p = Inl e \<longrightarrow>
      \<not> size_filters_exclude c w p
      \<and> (\<not> only_dirs c \<and> \<not> only_jar c \<and> \<not> only_json c
           \<and> exclude_keyword c = None \<and> include_keyword c = None
           \<and> \<not> modified_last_24h c \<and> \<not> modified_over_24h c \<longrightarrow>
           should_include c w n p False)
      \<and> should_include c w n p False
          = should_include (c\<lparr>size_less_than_1mb := False, size_more_than_1mb := False\<rparr>) w n p False)
   \<and> ((modified_last_24h c \<or> modified_over_24h c) \<and> os_path_getmtime w p = Inl e' \<longrightarrow>
      \<not> should_include c w n p False)"
proof -
  have open_policy: "os_path_getsize w p = Inl e \<longrightarrow>
      \<not> size_filters_exclude c w p
      \<and> (\<not> only_dirs c \<and> \<not> only_jar c \<and> \<not> only_json c
           \<and> exclude_keyword c = None \<and> include_keyword c = None
           \<and> \<not> modified_last_24h c \<and> \<not> modified_over_24h c \<longrightarrow>
           should_include c w n p False)"
    by (simp add: should_include_def size_filters_exclude_unreadable)
  have relative: "os_path_getsize w p = Inl e \<longrightarrow>
      should_include c w n p False
      = should_include (c\<lparr>size_less_than_1mb := False, size_more_than_1mb := False\<rparr>) w n p False"
    by (auto simp add: should_include_def size_filters_exclude_unreadable size_filters_exclude_off)
  have closed_policy: "(modified_last_24h c \<or> modified_over_24h c) \<and> os_path_getmtime w p = Inl e'
      \<longrightarrow> \<not> should_include c w n p False"
    by (auto simp add: should_include_def)
  from open_policy relative closed_policy show ?thesis by blast
qed

theorem stat_failure_policies_witness:
  "os_path_getsize (example_world []) ''d/ghost'' = Inl (no_such_file ''d/ghost'')
   \<and> os_path_getmtime (example_world []) ''d/ghost'' = Inl (no_such_file ''d/ghost'')
   \<and> \<not> size_filters_exclude
          (FilterCriteria_init\<lparr>size_less_than_1mb := True, size_more_than_1mb := True\<rparr>)
          (example_world []) ''d/ghost''
   \<and> should_include (FilterCriteria_init\<lparr>size_less_than_1mb := True, size_more_than_1mb := True\<rparr>)
        (example_world []) ''ghost'' ''d/ghost'' False
   \<and> \<not> should_include (FilterCriteria_init\<lparr>modified_last_24h := True\<rparr>)
        (example_world []) ''ghost'' ''d/ghost'' False"
proof -
  have s: "os_path_getsize (example_world []) ''d/ghost'' = Inl (no_such_file ''d/ghost'')"
    by (simp add: os_path_getsize_def example_world_def example_fs_def)
  have m: "os_path_getmtime (example_world []) ''d/ghost'' = Inl (no_such_file ''d/ghost'')"
    by (simp add: os_path_getmtime_def example_world_def example_fs_def)
  from s m
    stat_failure_policies [of "example_world []" "''d/ghost''" "no_such_file ''d/ghost''"
        "FilterCriteria_init\<lparr>size_less_than_1mb := True, size_more_than_1mb := True\<rparr>"
        "''ghost''" "no_such_file ''d/ghost''"]
    stat_failure_policies [of "example_world []" "''d/ghost''" "no_such_file ''d/ghost''"
        "FilterCriteria_init\<lparr>modified_last_24h := True\<rparr>" "''ghost''" "no_such_file ''d/ghost''"]
  show ?thesis by (simp add: FilterCriteria_init_def)
qed

text \<open>
  C6. A file of exactly 1024 KiB (1048576 bytes) is excluded when the size-under-1MB filter
  is set, and the size-over-1MB filter does not exclude it: with it the answer is the one
  the same criteria give without it. The two filters split the files at that size: alone,
  the first passes exactly the sizes below 1048576 bytes and the second exactly the sizes
  from 1048576 bytes on.
\<close>

lemma size_kb_boundary: "((1024::rat) \<le> of_nat sz / 1024) = (1048576 \<le> sz)"
proof -
  have "((1024::rat) \<le> of_nat sz / 1024) = ((1024::rat) * 1024 \<le> of_nat sz)"
    by (simp add: pos_le_divide_eq)
  also have "\<dots> = (of_nat (1048576::nat) \<le> (of_nat sz :: rat))" by simp
  also have "\<dots> = (1048576 \<le> sz)" by (simp only: of_nat_le_iff)
  finally show ?thesis .
qed

theorem size_filters_boundary:
  "(os_path_getsize w p = Inr 1048576 \<and> size_less_than_1mb c \<longrightarrow> \<not> should_include c w n p False)
   \<and> (os_path_getsize w p = Inr 1048576 \<longrightarrow>
        should_include c w n p False = should_include (c\<lparr>size_more_than_1mb := False\<rparr>) w n p False)
   \<and> (os_path_getsize w p = Inr sz \<longrightarrow>
        (should_include (FilterCriteria_init\<lparr>size_less_than_1mb := True\<rparr>) w n p False = (sz < 1048576))
        \<and> (should_include (FilterCriteria_init\<lparr>size_more_than_1mb := True\<rparr>) w n p False = (1048576 \<le> sz)))"
proof -
  have lt: "\<And>k. ((of_nat k :: rat) / 1024 < 1024) = (k < 1048576)"
    using size_kb_boundary by (simp add: not_le [symmetric])
  have a: "os_path_getsize w p = Inr 1048576 \<and> size_less_than_1mb c \<longrightarrow> \<not> should_include c w n p False"
    by (simp add: should_include_def size_filters_exclude_def)
  have b: "os_path_getsize w p = Inr 1048576 \<longrightarrow>
        should_include c w n p False = should_include (c\<lparr>size_more_than_1mb := False\<rparr>) w n p False"
    by (simp add: should_include_def size_filters_exclude_def)
  have c: "os_path_getsize w p = Inr sz \<longrightarrow>
        (should_include (FilterCriteria_init\<lparr>size_less_than_1mb := True\<rparr>) w n p False = (sz < 1048576))
        \<and> (should_include (FilterCriteria_init\<lparr>size_more_than_1mb := True\<rparr>) w n p False = (1048576 \<le> sz))"
    by (auto simp add: should_include_def size_filters_exclude_def FilterCriteria_init_def
        size_kb_boundary lt)
  from a b c show ?thesis by blast
qed

theorem size_filters_boundary_witness:
  "os_path_getsize (example_world []) ''d/b.txt'' = Inr 1048576
   \<and> \<not> should_include (FilterCriteria_init\<lparr>size_less_than_1mb := True\<rparr>)
        (example_world []) ''b.txt'' ''d/b.txt'' False
   \<and> should_include (FilterCriteria_init\<lparr>size_more_than_1mb := True\<rparr>)
        (example_world []) ''b.txt'' ''d/b.txt'' False"
proof -
  have s: "os_path_getsize (example_world []) ''d/b.txt'' = Inr 1048576"
    by (simp add: os_path_getsize_def example_world_def example_fs_def regular_file_def)
  from s size_filters_boundary [of "example_world []" "''d/b.txt''"
        "FilterCriteria_init\<lparr>size_less_than_1mb := True\<rparr>" "''b.txt''" 1048576]
  show ?thesis by (simp add: FilterCriteria_init_def)
qed

subsection \<open>The name of the JSON file\<close>

text \<open>What \<open>startswith\<close>, \<open>endswith\<close> and \<open>py_in\<close> compute, and two facts about replacing.\<close>

lemma startswith_iff: "startswith s p = (\<exists>r. s = p @ r)"
  by (induction s p rule: startswith.induct) auto

lemma endswith_iff: "endswith s p = (\<exists>r. s = r @ p)"
proof -
  have "endswith s p = (\<exists>r. rev s = rev p @ r)"
    by (simp add: endswith_def startswith_iff)
  also have "\<dots> = (\<exists>r. s = r @ p)"
  proof
    assume "\<exists>r. rev s = rev p @ r"
    then obtain r where "rev s = rev p @ r" ..
    then have "s = rev r @ p" by (metis rev_append rev_rev_ident)
    then show "\<exists>r. s = r @ p" ..
  next
    assume "\<exists>r. s = r @ p"
    then obtain r where "s = r @ p" ..
    then have "rev s = rev p @ rev r" by simp
    then show "\<exists>r. rev s = rev p @ r" ..
  qed
  finally show ?thesis .
qed

lemma py_in_iff: "py_in sub s = (\<exists>a b. s = a @ sub @ b)"
proof (induction s)
  case Nil
  then show ?case by auto
next
  case (Cons c cs)
  show ?case
  proof
    assume "py_in sub (c # cs)"
    then consider "startswith (c # cs) sub" | "py_in sub cs" by auto
    then show "\<exists>a b. c # cs = a @ sub @ b"
    proof cases
      case 1
      then obtain r where "c # cs = sub @ r" by (auto simp: startswith_iff)
      then have "c # cs = [] @ sub @ r" by simp
      then show ?thesis by blast
    next
      case 2
      then obtain a b where "cs = a @ sub @ b" using Cons.IH by auto
      then have "c # cs = (c # a) @ sub @ b" by simp
      then show ?thesis by blast
    qed
  next
    assume "\<exists>a b. c # cs = a @ sub @ b"
    then obtain a b where ab: "c # cs = a @ sub @ b" by blast
    show "py_in sub (c # cs)"
    proof (cases a)
      case Nil
      with ab have "startswith (c # cs) sub" unfolding startswith_iff by auto
      then show ?thesis by simp
    next
      case (Cons x xs)
      with ab have "cs = xs @ sub @ b" by simp
      then have "py_in sub cs" using Cons.IH by blast
      then show ?thesis by simp
    qed
  qed
qed

lemma replace_dot: "replace_from ''.'' [] s = filter (\<lambda>c. c \<noteq> CHR ''.'') s"
  by (induction s) auto

lemma replace_absent: "\<not> py_in old s \<Longrightarrow> replace_from old new s = s"
  by (induction s) auto

lemma json_name_shape:
  "name \<noteq> [] \<Longrightarrow>
   choice_1_json_name name
     = filter (\<lambda>c. c \<noteq> CHR ''.'') (replace_from ''.json'' [] name) @ ''.json''"
  by (simp add: choice_1_json_name_def py_replace_def replace_dot)

lemma json_name_ends: "name \<noteq> [] \<Longrightarrow> endswith (choice_1_json_name name) ''.json''"
  using json_name_shape [of name] by (auto simp: endswith_iff)

lemma json_name_one_dot:
  "name \<noteq> [] \<Longrightarrow> length (filter (\<lambda>c. c = CHR ''.'') (choice_1_json_name name)) = 1"
  by (simp add: json_name_shape)

text \<open>An occurrence of \<^verbatim>\<open>.json\<close> cannot begin in \<open>base\<close> and end in an appended
  \<^verbatim>\<open>.json\<close>: the dot stands only at its head.\<close>

lemma no_straddle:
  assumes "\<not> py_in ''.json'' base"
  shows "replace_from ''.json'' [] (base @ ''.json'') = base"
  using assms
proof (induction base)
  case Nil
  then show ?case by simp
next
  case (Cons c cs)
  have nostart: "\<not> startswith (c # cs) ''.json''" and rest: "\<not> py_in ''.json'' cs"
    using Cons.prems by auto
  have "\<not> startswith (c # cs @ ''.json'') ''.json''"
  proof
    assume st: "startswith (c # cs @ ''.json'') ''.json''"
    show False
    proof (cases "4 \<le> length cs")
      case True
      then obtain x1 x2 x3 x4 r where "cs = x1 # x2 # x3 # x4 # r"
        by (cases cs; cases "tl cs"; cases "tl (tl cs)"; cases "tl (tl (tl cs))") auto
      with st nostart show False by simp
    next
      case False
      then consider "cs = []" | x1 where "cs = [x1]" | x1 x2 where "cs = [x1, x2]"
        | x1 x2 x3 where "cs = [x1, x2, x3]"
        by (cases cs; cases "tl cs"; cases "tl (tl cs)"; cases "tl (tl (tl cs))") auto
      then show False using st by cases auto
    qed
  qed
  then have "replace_from ''.json'' [] (c # cs @ ''.json'')
               = c # replace_from ''.json'' [] (cs @ ''.json'')"
    by (simp only: replace_from.simps simp_thms if_False)
  then show ?case using Cons.IH [OF rest] by simp
qed

lemma json_name_agrees:
  assumes "\<not> py_in ''.json'' base"
  shows "choice_1_json_name (base @ ''.json'') = spec_json_name (base @ ''.json'')"
    and "base \<noteq> [] \<Longrightarrow> choice_1_json_name base = spec_json_name base"
proof -
  have e: "endswith (base @ ''.json'') ''.json''" by (auto simp: endswith_iff)
  show "choice_1_json_name (base @ ''.json'') = spec_json_name (base @ ''.json'')"
    using no_straddle [OF assms] e
    by (simp add: choice_1_json_name_def spec_json_name_def py_replace_def replace_dot)
  have ne: "\<not> endswith base ''.json''"
  proof
    assume "endswith base ''.json''"
    then obtain r where "base = r @ ''.json'' @ []" by (auto simp: endswith_iff)
    then have "py_in ''.json'' base" unfolding py_in_iff by blast
    with assms show False by simp
  qed
  show "base \<noteq> [] \<Longrightarrow> choice_1_json_name base = spec_json_name base"
    using replace_absent [OF assms] ne
    by (simp add: choice_1_json_name_def spec_json_name_def py_replace_def replace_dot)
qed

text \<open>
  C5, as the claim states it, fails. For the name \<^verbatim>\<open>a.jsonb\<close> there is no \<^verbatim>\<open>.json\<close> suffix to
  strip, so stripping the suffix and the dots gives \<^verbatim>\<open>ajsonb.json\<close>; \<open>choice_1\<close> removes the
  \<^verbatim>\<open>.json\<close> inside the name and stores \<^verbatim>\<open>ab.json\<close>.
\<close>

theorem json_name_counterexample:
  "choice_1_json_name ''a.jsonb'' = ''ab.json'' \<and> spec_json_name ''a.jsonb'' = ''ajsonb.json''
   \<and> choice_1_json_name ''a.jsonb'' \<noteq> spec_json_name ''a.jsonb''"
  by (simp add: choice_1_json_name_def spec_json_name_def py_replace_def endswith_def)

text \<open>
  C5, amended. For a name that is not empty, \<open>choice_1\<close> removes every occurrence of
  \<^verbatim>\<open>.json\<close> (found from the left, wherever it stands, not only a suffix), then every dot
  that is left, and appends \<^verbatim>\<open>.json\<close>. The result ends in \<^verbatim>\<open>.json\<close> and holds exactly one
  dot. It is the name the specification describes for every name in which \<^verbatim>\<open>.json\<close>
  occurs at most as its suffix. The empty name gives \<^verbatim>\<open>dataStore.json\<close>.
\<close>

theorem json_name_amended:
  "choice_1_json_name [] = ''dataStore.json''
   \<and> (name \<noteq> [] \<longrightarrow>
        choice_1_json_name name
          = filter (\<lambda>c. c \<noteq> CHR ''.'') (replace_from ''.json'' [] name) @ ''.json''
        \<and> endswith (choice_1_json_name name) ''.json''
        \<and> length (filter (\<lambda>c. c = CHR ''.'') (choice_1_json_name name)) = 1)
   \<and> (\<not> py_in ''.json'' base \<longrightarrow>
        choice_1_json_name (base @ ''.json'') = spec_json_name (base @ ''.json'')
        \<and> (base \<noteq> [] \<longrightarrow> choice_1_json_name base = spec_json_name base))"
  using json_name_shape [of name] json_name_ends [of name] json_name_one_dot [of name]
    json_name_agrees [of base]
  by (simp add: choice_1_json_name_def)

theorem json_name_amended_witness:
  "choice_1_json_name ''my.data.json'' = ''mydata.json''
   \<and> endswith (choice_1_json_name ''my.data.json'') ''.json''
   \<and> length (filter (\<lambda>c. c = CHR ''.'') (choice_1_json_name ''my.data.json'')) = 1
   \<and> \<not> py_in ''.json'' ''my.data''
   \<and> choice_1_json_name (''my.data'' @ ''.json'') = spec_json_name (''my.data'' @ ''.json'')
   \<and> choice_1_json_name ''my.data'' = spec_json_name ''my.data''"
proof -
  have a: "''my.data.json'' \<noteq> []" by simp
  have b: "\<not> py_in ''.json'' ''my.data''" by simp
  have c: "filter (\<lambda>c. c \<noteq> CHR ''.'') (replace_from ''.json'' [] ''my.data.json'') @ ''.json''
             = ''mydata.json''" by simp
  from a b c json_name_amended [of "''my.data.json''" "''my.data''"]
  show ?thesis by (auto simp: endswith_def)
qed

subsection \<open>Moving a directory\<close>

text \<open>
  C8, as the claim states it, fails. The answer \<^verbatim>\<open>YES\<close> is other than \<^verbatim>\<open>yes\<close>, but
  \<open>choice_3\<close> lowercases the answer before it compares: the move is called, the directory
  \<^verbatim>\<open>d\<close> of the example is moved, and no cancellation is reported.
\<close>

theorem move_directory_counterexample:
  "''YES'' \<noteq> ''yes''
   \<and> os_path_isdir (example_world [''d'', ''elsewhere'', ''YES'']) ''d''
   \<and> choice_3 None (example_world [''d'', ''elsewhere'', ''YES''])
       = Inr ((example_world [])
                \<lparr>fs := (example_fs(''d'' := None))(''elsewhere'' := example_fs ''d''),
                 stdout := [nl @ ''Enter path of file/directory to move: '',
                            ''Enter destination path: '',
                            ''Moving a directory. Continue? (yes/no): '',
                            check_mark @ '' Moved '' @ quoted ''d'' @ '' to '' @ quoted ''elsewhere'']\<rparr>)
   \<and> ((example_fs(''d'' := None))(''elsewhere'' := example_fs ''d'')) ''d'' = None
   \<and> example_fs ''d'' = Some (directory [''a.json'', ''b.txt''])"
  by (simp add: choice_3_def input_line_def os_path_exists_def os_path_isdir_def print_def
      move_and_report_def py_lower_def lower_char_def example_world_def example_fs_def
      directory_def)

text \<open>
  C8, amended. When the source of \<open>choice_3\<close> is a directory and the answer to the second
  question, lowercased, is not \<^verbatim>\<open>yes\<close>, \<open>choice_3\<close> prints \<^verbatim>\<open>Move cancelled.\<close> and returns:
  the move is not called, whatever it would do, and the state differs from the one before
  only in the input read and the lines printed, so the file system is the same. When the
  lowercased answer is \<^verbatim>\<open>yes\<close> (\<^verbatim>\<open>yes\<close>, \<^verbatim>\<open>YES\<close>, \<^verbatim>\<open>Yes\<close>, ...), the move is called and
  its outcome reported.
\<close>

theorem move_directory_cancelled:
  assumes "stdin w = source # destination # confirm # rest"
    and "os_path_isdir w source"
  shows "(py_lower confirm \<noteq> ''yes'' \<longrightarrow>
            (\<exists>w'. choice_3 criteria w = Inr w'
              \<and> w' = w\<lparr>stdin := rest,
                       stdout := stdout w @ [nl @ ''Enter path of file/directory to move: '',
                                             ''Enter destination path: '',
                                             ''Moving a directory. Continue? (yes/no): '',
                                             ''Move cancelled.'']\<rparr>
              \<and> fs w' = fs w))
       \<and> (py_lower confirm = ''yes'' \<longrightarrow>
            choice_3 criteria w
              = Inr (move_and_report source destination
                       (w\<lparr>stdin := rest,
                          stdout := stdout w @ [nl @ ''Enter path of file/directory to move: '',
                                                ''Enter destination path: '',
                                                ''Moving a directory. Continue? (yes/no): '']\<rparr>)))"
  using assms
  by (simp add: choice_3_def input_line_def os_path_exists_def os_path_isdir_def print_def
      split: option.splits)

theorem move_directory_cancelled_witness:
  "(\<exists>w'. choice_3 None (example_world [''d'', ''elsewhere'', ''no'']) = Inr w'
        \<and> w' = (example_world [''d'', ''elsewhere'', ''no''])
                 \<lparr>stdin := [],
                  stdout := stdout (example_world [''d'', ''elsewhere'', ''no''])
                            @ [nl @ ''Enter path of file/directory to move: '',
                               ''Enter destination path: '',
                               ''Moving a directory. Continue? (yes/no): '',
                               ''Move cancelled.'']\<rparr>
        \<and> fs w' = fs (example_world [''d'', ''elsewhere'', ''no'']))
   \<and> choice_3 None (example_world [''d'', ''elsewhere'', ''Yes''])
       = Inr (move_and_report ''d'' ''elsewhere''
                ((example_world [''d'', ''elsewhere'', ''Yes''])
                   \<lparr>stdin := [],
                    stdout := stdout (example_world [''d'', ''elsewhere'', ''Yes''])
                              @ [nl @ ''Enter path of file/directory to move: '',
                                 ''Enter destination path: '',
                                 ''Moving a directory. Continue? (yes/no): '']\<rparr>))"
proof -
  have a: "stdin (example_world [''d'', ''elsewhere'', ''no'']) = ''d'' # ''elsewhere'' # ''no'' # []"
    by (simp add: example_world_def)
  have b: "os_path_isdir (example_world [''d'', ''elsewhere'', ''no'']) ''d''"
    by (simp add: example_world_def os_path_isdir_def example_fs_def directory_def)
  have c: "py_lower ''no'' \<noteq> ''yes''"
    by (simp add: py_lower_def lower_char_def)
  have a': "stdin (example_world [''d'', ''elsewhere'', ''Yes'']) = ''d'' # ''elsewhere'' # ''Yes'' # []"
    by (simp add: example_world_def)
  have b': "os_path_isdir (example_world [''d'', ''elsewhere'', ''Yes'']) ''d''"
    by (simp add: example_world_def os_path_isdir_def example_fs_def directory_def)
  have c': "py_lower ''Yes'' = ''yes''"
    by (simp add: py_lower_def lower_char_def)
  from move_directory_cancelled [OF a b, of None] c
    move_directory_cancelled [OF a' b', of None] c'
  show ?thesis by blast
qed

subsection \<open>Facts about the state\<close>

text \<open>Printing and asking leave the file system and the clock; what the program reads
  from the file system depends on nothing else.\<close>

lemma print_fields [simp]:
  "fs (print s w) = fs w" "time_time (print s w) = time_time w"
  "stdin (print s w) = stdin w" "stdout (print s w) = stdout w @ [s]"
  by (simp_all add: print_def)

lemma reads_depend_on_fs:
  assumes "fs w' = fs w"
  shows "os_path_exists w' = os_path_exists w" "os_path_isfile w' = os_path_isfile w"
    "os_path_isdir w' = os_path_isdir w" "os_path_getsize w' = os_path_getsize w"
    "os_path_getmtime w' = os_path_getmtime w" "os_listdir w' = os_listdir w"
  using assms
  by (simp_all add: fun_eq_iff os_path_exists_def os_path_isfile_def os_path_isdir_def
      os_path_getsize_def os_path_getmtime_def os_listdir_def)

lemma should_include_depends:
  assumes "fs w' = fs w" "time_time w' = time_time w"
  shows "should_include c w' n p d = should_include c w n p d"
  unfolding should_include_def size_filters_exclude_def
    reads_depend_on_fs(4) [OF assms(1)] reads_depend_on_fs(5) [OF assms(1)] assms(2)
  by (rule refl)

lemma filtered_out_depends:
  assumes "fs w' = fs w" "time_time w' = time_time w"
  shows "filtered_out criteria w' n p d = filtered_out criteria w n p d"
  using should_include_depends [OF assms]
  by (simp add: filtered_out_def split: option.splits)

lemma join_longer:
  "e \<noteq> [] \<Longrightarrow> \<not> startswith e ''/'' \<Longrightarrow> length path < length (os_path_join path e)"
  by (cases e) (auto simp: os_path_join_def)

lemma isdir_within:
  "dirs_within N (fs w) \<Longrightarrow> os_path_isdir w p \<Longrightarrow> length p \<le> N"
  by (auto simp: dirs_within_def os_path_isdir_def split: option.splits)

lemma listdir_plain:
  "names_plain (fs w) \<Longrightarrow> os_listdir w p = Inr names \<Longrightarrow>
   \<forall>e \<in> set names. e \<noteq> [] \<and> \<not> startswith e ''/''"
  by (auto simp: names_plain_def os_listdir_def split: option.splits if_splits)

lemma printed_fields [simp]:
  "fs (printed w out) = fs w" "time_time (printed w out) = time_time w"
  "stdin (printed w out) = stdin w" "stdout (printed w out) = stdout w @ out"
  by (simp_all add: printed_def)

lemma print_printed: "print s (printed w out) = printed w (out @ [s])"
  "printed (print s w) out = printed w (s # out)" "print s w = printed w [s]"
  "printed (printed w a) b = printed w (a @ b)"
  by (simp_all add: print_def printed_def)

lemma show_entries_returns:
  assumes P: "\<And>path indent w. fs w = f \<Longrightarrow> N < k + length path \<Longrightarrow> 0 < k \<Longrightarrow>
                \<exists>out. show_directory_tree k path indent criteria w = Some (printed w out)"
    and f: "dirs_within N f"
  shows "fs w = f \<Longrightarrow> N \<le> k + length path \<Longrightarrow>
         \<forall>e \<in> set entries. e \<noteq> [] \<and> \<not> startswith e ''/'' \<Longrightarrow>
         \<exists>out. show_entries k path indent criteria entries w = Some (printed w out)"
proof (induction entries arbitrary: w)
  case Nil
  have "w = printed w []" by (simp add: printed_def)
  then show ?case by (metis show_entries.simps(1))
next
  case (Cons e rest)
  let ?full = "os_path_join path e"
  have plain: "\<forall>e \<in> set rest. e \<noteq> [] \<and> \<not> startswith e ''/''" using Cons.prems(3) by simp
  have step: "\<And>w1 out1. w1 = printed w out1 \<Longrightarrow>
     \<exists>out. show_entries k path indent criteria rest w1 = Some (printed w out)"
  proof -
    fix w1 out1 assume w1: "w1 = printed w out1"
    then have "fs w1 = f" using Cons.prems(1) by simp
    from Cons.IH [OF this Cons.prems(2) plain] obtain out
      where "show_entries k path indent criteria rest w1 = Some (printed w1 out)" by blast
    then show "\<exists>out. show_entries k path indent criteria rest w1 = Some (printed w out)"
      using w1 by (auto simp: print_printed)
  qed
  show ?case
  proof (cases "filtered_out criteria w e ?full (os_path_isdir w ?full)")
    case True
    then show ?thesis using step [of w "[]"] by (simp add: printed_def)
  next
    case nf: False
    show ?thesis
    proof (cases "os_path_isdir w ?full")
      case True
      have len: "length path < length ?full" using Cons.prems(3) by (simp add: join_longer)
      have "length ?full \<le> N" using isdir_within f True Cons.prems(1) by blast
      with len Cons.prems(2) have c1: "N < k + length ?full" and c2: "0 < k" by auto
      let ?w0 = "print (indent_str indent @ ''|-- '' @ e @ ''/'') w"
      have "fs ?w0 = f" using Cons.prems(1) by simp
      from P [OF this c1 c2] obtain out
        where o: "show_directory_tree k ?full (indent + 1) criteria ?w0 = Some (printed ?w0 out)"
        by blast
      from step [of "printed ?w0 out" "(indent_str indent @ ''|-- '' @ e @ ''/'') # out"]
      obtain out2 where "show_entries k path indent criteria rest (printed ?w0 out) = Some (printed w out2)"
        by (auto simp: print_printed)
      with o nf True show ?thesis by (auto simp: Let_def)
    next
      case False
      show ?thesis
      proof (cases "os_path_getsize w ?full")
        case (Inl err)
        from step [of "print (indent_str indent @ ''|-- '' @ e) w"]
        show ?thesis using nf False Inl by (auto simp: Let_def print_printed)
      next
        case (Inr sz)
        from step [of "print (indent_str indent @ ''|-- '' @ e @ '' ('' @ fmt_commas sz @ '' bytes)'') w"]
        show ?thesis using nf False Inr by (auto simp: Let_def print_printed)
      qed
    qed
  qed
qed

lemma show_directory_tree_returns:
  assumes f: "dirs_within N f" and pl: "names_plain f"
  shows "fs w = f \<Longrightarrow> N < k + length path \<Longrightarrow> 0 < k \<Longrightarrow>
         \<exists>out. show_directory_tree k path indent criteria w = Some (printed w out)"
proof (induction k arbitrary: path indent w)
  case 0
  then show ?case by simp
next
  case (Suc k)
  show ?case
  proof (cases "os_listdir w path")
    case (Inl err)
    then show ?thesis by (cases err) (auto simp: print_printed)
  next
    case (Inr names)
    have plain: "\<forall>e \<in> set names. e \<noteq> [] \<and> \<not> startswith e ''/''"
      using listdir_plain pl Inr Suc.prems(1) by blast
    have b: "N \<le> k + length path" using Suc.prems(2) by simp
    have "\<exists>out. show_entries k path indent criteria names w = Some (printed w out)"
      by (rule show_entries_returns [OF Suc.IH f Suc.prems(1) b plain])
    then show ?thesis using Inr by simp
  qed
qed


lemma isdir_exists_not_file:
  "os_path_isdir w p \<Longrightarrow> os_path_exists w p \<and> \<not> os_path_isfile w p"
  by (auto simp: os_path_isdir_def os_path_exists_def os_path_isfile_def split: option.splits)

lemma collect_files_tree:
  assumes "tree_mode criteria" "os_path_isdir w path" "dirs_within N (fs w)" "names_plain (fs w)"
    and "N < fuel"
  shows "\<exists>out. collect_files fuel path criteria w = Some (Some [], printed w out)"
proof -
  let ?w0 = "print rule60 (print (''DIRECTORY TREE: '' @ path) (print (nl @ rule60) w))"
  have "fs ?w0 = fs w" by simp
  moreover have "N < fuel + length path" "0 < fuel" using assms(5) by auto
  ultimately obtain out where
    "show_directory_tree fuel path 0 criteria ?w0 = Some (printed ?w0 out)"
    using show_directory_tree_returns [OF assms(3,4)] by blast
  then have "collect_files fuel path criteria w = Some (Some [], print (rule60 @ nl) (printed ?w0 out))"
    using assms(1) isdir_exists_not_file [OF assms(2)] by (simp add: collect_files_def)
  then show ?thesis by (auto simp: print_printed)
qed

lemma collect_files_regular:
  assumes "os_path_isdir w path" "\<not> tree_mode criteria" "os_listdir w path = Inr names"
  shows "collect_files fuel path criteria w
           = Some (Some (collect_entries criteria w path names),
                   printed w [nl @ check_mark @ '' Collected ''
                              @ str_nat (length (collect_entries criteria w path names))
                              @ '' item(s) matching filters''])"
  using assms isdir_exists_not_file [OF assms(1)]
  by (simp add: collect_files_def Let_def print_printed)

lemma collect_files_listing_fails:
  assumes "os_path_isdir w path" "\<not> tree_mode criteria" "os_listdir w path = Inl e"
  shows "\<exists>out. collect_files fuel path criteria w = Some (None, printed w out)"
  using assms isdir_exists_not_file [OF assms(1)]
  by (cases e) (auto simp: collect_files_def print_printed)





lemma asked_fields [simp]:
  "fs (asked w prompt rest) = fs w" "time_time (asked w prompt rest) = time_time w"
  "stdin (asked w prompt rest) = rest" "stdout (asked w prompt rest) = stdout w @ [prompt]"
  by (simp_all add: asked_def)

lemma input_line_asked:
  "stdin w = l # rest \<Longrightarrow> input_line prompt w = Inr (l, asked w prompt rest)"
  by (simp add: input_line_def asked_def)

lemma choice_1_after_collect:
  assumes "stdin w = path # rest"
  shows "collect_files fuel path criteria (asked w (nl @ ''Enter directory path: '') rest) = Some (None, w2)
           \<Longrightarrow> choice_1 fuel criteria w = Some (Inr w2)"
    and "collect_files fuel path criteria (asked w (nl @ ''Enter directory path: '') rest) = Some (Some [], w2)
           \<Longrightarrow> choice_1 fuel criteria w
                 = Some (Inr (print ''No files collected (filters may have excluded everything).'' w2))"
  using assms by (simp_all add: choice_1_def input_line_asked)

subsection \<open>Tree mode\<close>

lemma collect_entries_depends:
  assumes "fs w' = fs w" "time_time w' = time_time w"
  shows "collect_entries criteria w' path names = collect_entries criteria w path names"
  by (induction names)
     (simp_all add: Let_def filtered_out_depends [OF assms] reads_depend_on_fs(3) [OF assms(1)]
        size_str_def reads_depend_on_fs(4) [OF assms(1)])

lemma choice_1_tree:
  assumes "tree_mode criteria" "os_path_isdir w path" "dirs_within N (fs w)" "names_plain (fs w)"
    and "N < fuel" and "stdin w = path # rest"
  shows "\<exists>out. choice_1 fuel criteria w
           = Some (Inr (printed (asked w (nl @ ''Enter directory path: '') rest)
                          (out @ [''No files collected (filters may have excluded everything).''])))"
proof -
  let ?w1 = "asked w (nl @ ''Enter directory path: '') rest"
  have "os_path_isdir ?w1 path" using assms(2) by (simp add: os_path_isdir_def)
  moreover have "dirs_within N (fs ?w1)" "names_plain (fs ?w1)" using assms(3,4) by simp_all
  ultimately obtain out where
    "collect_files fuel path criteria ?w1 = Some (Some [], printed ?w1 out)"
    using collect_files_tree [OF assms(1) _ _ _ assms(5)] by blast
  from choice_1_after_collect(2) [OF assms(6) this]
  have "choice_1 fuel criteria w
          = Some (Inr (printed ?w1 (out @ [''No files collected (filters may have excluded everything).''])))"
    by (simp only: print_printed(1))
  then show ?thesis by blast
qed

lemma choice_1_all_filtered:
  assumes "os_path_isdir w path" "\<not> tree_mode criteria" "os_listdir w path = Inr names"
    and "collect_entries criteria w path names = []" and "stdin w = path # rest"
  shows "\<exists>out. choice_1 fuel criteria w
           = Some (Inr (printed (asked w (nl @ ''Enter directory path: '') rest)
                          (out @ [''No files collected (filters may have excluded everything).''])))"
proof -
  let ?w1 = "asked w (nl @ ''Enter directory path: '') rest"
  have d: "os_path_isdir ?w1 path" using assms(1) by (simp add: os_path_isdir_def)
  have l: "os_listdir ?w1 path = Inr names" using assms(3) by (simp add: os_listdir_def)
  have e: "collect_entries criteria ?w1 path names = []"
    using assms(4) collect_entries_depends [of ?w1 w criteria path names] by simp
  obtain out where cf: "collect_files fuel path criteria ?w1 = Some (Some [], printed ?w1 out)"
    using collect_files_regular [OF d assms(2) l, of fuel] unfolding e by blast
  have "choice_1 fuel criteria w
          = Some (Inr (print ''No files collected (filters may have excluded everything).''
                         (printed ?w1 out)))"
    by (rule choice_1_after_collect(2) [OF assms(5) cf])
  then have "choice_1 fuel criteria w
          = Some (Inr (printed ?w1 (out @ [''No files collected (filters may have excluded everything).''])))"
    by (simp only: print_printed(1))
  then show ?thesis by blast
qed

text \<open>
  C10. When the tree-display flag is set and the path is an existing directory,
  \<open>collect_files\<close> returns the empty list, whatever the directory holds: the printer
  returns with any fuel above the bound on the length of the directory paths, and only
  lines were printed. So \<open>choice_1\<close> in tree mode ends with the message that nothing was
  collected, asks nothing more and writes no file: the state differs from the one before
  only in the input read and the lines printed. A run that is not in tree mode and whose
  filters exclude every entry returns the same empty list and ends with the same message.
\<close>

theorem tree_mode_collects_nothing:
  assumes "show_tree c" "os_path_isdir w path" "dirs_within N (fs w)" "names_plain (fs w)"
    and "N < fuel"
  shows "(\<exists>out. collect_files fuel path (Some c) w = Some (Some [], printed w out))
   \<and> (\<forall>rest. stdin w = path # rest \<longrightarrow>
         (\<exists>out. choice_1 fuel (Some c) w
            = Some (Inr (printed (asked w (nl @ ''Enter directory path: '') rest)
                           (out @ [''No files collected (filters may have excluded everything).''])))))
   \<and> (\<forall>c' names. \<not> show_tree c' \<and> os_listdir w path = Inr names
                   \<and> collect_entries (Some c') w path names = [] \<longrightarrow>
         (\<exists>out. collect_files fuel path (Some c') w = Some (Some [], printed w out))
         \<and> (\<forall>rest. stdin w = path # rest \<longrightarrow>
               (\<exists>out. choice_1 fuel (Some c') w
                  = Some (Inr (printed (asked w (nl @ ''Enter directory path: '') rest)
                                 (out @ [''No files collected (filters may have excluded everything).''])))))) "
proof -
  have t: "tree_mode (Some c)" using assms(1) by (simp add: tree_mode_def)
  have a: "\<exists>out. collect_files fuel path (Some c) w = Some (Some [], printed w out)"
    by (rule collect_files_tree [OF t assms(2-5)])
  have b: "\<forall>rest. stdin w = path # rest \<longrightarrow>
         (\<exists>out. choice_1 fuel (Some c) w
            = Some (Inr (printed (asked w (nl @ ''Enter directory path: '') rest)
                           (out @ [''No files collected (filters may have excluded everything).'']))))"
    using choice_1_tree [OF t assms(2-5)] by blast
  have c: "\<And>c' names. \<not> show_tree c' \<Longrightarrow> os_listdir w path = Inr names \<Longrightarrow>
                   collect_entries (Some c') w path names = [] \<Longrightarrow>
         (\<exists>out. collect_files fuel path (Some c') w = Some (Some [], printed w out))
         \<and> (\<forall>rest. stdin w = path # rest \<longrightarrow>
               (\<exists>out. choice_1 fuel (Some c') w
                  = Some (Inr (printed (asked w (nl @ ''Enter directory path: '') rest)
                                 (out @ [''No files collected (filters may have excluded everything).''])))))"
  proof -
    fix c' names
    assume nt: "\<not> show_tree c'" and l: "os_listdir w path = Inr names"
      and e: "collect_entries (Some c') w path names = []"
    have nt': "\<not> tree_mode (Some c')" using nt by (simp add: tree_mode_def)
    show "(\<exists>out. collect_files fuel path (Some c') w = Some (Some [], printed w out))
         \<and> (\<forall>rest. stdin w = path # rest \<longrightarrow>
               (\<exists>out. choice_1 fuel (Some c') w
                  = Some (Inr (printed (asked w (nl @ ''Enter directory path: '') rest)
                                 (out @ [''No files collected (filters may have excluded everything).''])))))"
      using collect_files_regular [OF assms(2) nt' l, of fuel]
        choice_1_all_filtered [OF assms(2) nt' l e]
      unfolding e by blast
  qed
  from a b c show ?thesis by blast
qed

lemma example_dirs_within: "dirs_within 6 example_fs"
  by (simp add: dirs_within_def example_fs_def regular_file_def)

lemma example_names_plain: "names_plain example_fs"
  by (auto simp: names_plain_def example_fs_def directory_def regular_file_def
      locked_directory_def split: if_splits)

theorem tree_mode_collects_nothing_witness:
  "(\<exists>out. collect_files 7 ''d'' (Some (FilterCriteria_init\<lparr>show_tree := True\<rparr>)) (example_world [''d''])
            = Some (Some [], printed (example_world [''d'']) out))
   \<and> (\<exists>out. choice_1 7 (Some (FilterCriteria_init\<lparr>show_tree := True\<rparr>)) (example_world [''d''])
            = Some (Inr (printed (asked (example_world [''d'']) (nl @ ''Enter directory path: '') [])
                           (out @ [''No files collected (filters may have excluded everything).'']))))
   \<and> (\<exists>out. collect_files 7 ''d'' (Some (FilterCriteria_init\<lparr>only_jar := True\<rparr>)) (example_world [''d''])
            = Some (Some [], printed (example_world [''d'']) out))"
proof -
  let ?w = "example_world [''d'']"
  have t: "show_tree (FilterCriteria_init\<lparr>show_tree := True\<rparr>)" by simp
  have d: "os_path_isdir ?w ''d''"
    by (simp add: example_world_def os_path_isdir_def example_fs_def directory_def)
  have b: "dirs_within 6 (fs ?w)" using example_dirs_within by (simp add: example_world_def)
  have p: "names_plain (fs ?w)" using example_names_plain by (simp add: example_world_def)
  have f: "(6::nat) < 7" by simp
  have i: "stdin ?w = ''d'' # []" by (simp add: example_world_def)
  have nt: "\<not> show_tree (FilterCriteria_init\<lparr>only_jar := True\<rparr>)"
    by (simp add: FilterCriteria_init_def)
  have l: "os_listdir ?w ''d'' = Inr [''a.json'', ''b.txt'']"
    by (simp add: example_world_def os_listdir_def example_fs_def directory_def)
  have e: "collect_entries (Some (FilterCriteria_init\<lparr>only_jar := True\<rparr>)) ?w ''d'' [''a.json'', ''b.txt''] = []"
    by (simp add: Let_def filtered_out_def should_include_def FilterCriteria_init_def
        os_path_join_def endswith_def py_lower_def lower_char_def os_path_isdir_def
        example_world_def example_fs_def regular_file_def)
  from tree_mode_collects_nothing [OF t d b p f] i nt l e
  show ?thesis by blast
qed

subsection \<open>The delete loop\<close>

lemma removed_fs_empty: "removed_fs {} f = f"
proof
  fix q
  show "removed_fs {} f q = f q"
  proof (cases "f q")
    case None
    then show ?thesis by (simp add: removed_fs_def)
  next
    case (Some n)
    have "map_sum id (filter (\<lambda>e. True)) (listing n) = listing n"
      by (cases "listing n") simp_all
    then show ?thesis using Some by (simp add: removed_fs_def)
  qed
qed

lemma unlinked_removed_fs: "unlinked p f = removed_fs {p} f"
proof
  fix q
  have "(\<lambda>e. os_path_join q e \<noteq> p) = (\<lambda>e. os_path_join q e \<notin> {p})" by simp
  then show "unlinked p f q = removed_fs {p} f q"
    by (simp only: unlinked_def removed_fs_def singleton_iff)
qed

lemma removed_fs_insert: "removed_fs R (removed_fs {p} f) = removed_fs (insert p R) f"
proof
  fix q
  show "removed_fs R (removed_fs {p} f) q = removed_fs (insert p R) f q"
  proof (cases "f q")
    case None
    then show ?thesis by (simp add: removed_fs_def)
  next
    case (Some n)
    have "map_sum id (filter (\<lambda>e. os_path_join q e \<notin> R))
            (map_sum id (filter (\<lambda>e. os_path_join q e \<noteq> p)) (listing n))
          = map_sum id (filter (\<lambda>e. os_path_join q e \<noteq> p \<and> os_path_join q e \<notin> R)) (listing n)"
      by (cases "listing n") (simp_all add: conj_commute)
    then show ?thesis using Some by (simp add: removed_fs_def)
  qed
qed

lemma removable_after_unlink:
  "fs w1 = unlinked p (fs w) \<Longrightarrow> removable w1 q = (q \<noteq> p \<and> removable w q)"
  by (cases "fs w q") (simp_all add: removable_def unlinked_def)

lemma removed_paths_after_unlink:
  "fs w1 = unlinked p (fs w) \<Longrightarrow>
   removed_paths w1 target items = removed_paths w target items - {p}"
  by (auto simp: removed_paths_def removable_after_unlink)

lemma removed_paths_same_fs:
  "fs w1 = fs w \<Longrightarrow> removed_paths w1 target items = removed_paths w target items"
  by (simp add: removed_paths_def removable_def)

lemma finite_removed_paths: "finite (removed_paths w target items)"
  by (simp add: removed_paths_def)

lemma removed_paths_Cons:
  "removed_paths w target (item # rest)
     = (if removable w (os_path_join target (Name item))
        then insert (os_path_join target (Name item)) (removed_paths w target rest)
        else removed_paths w target rest)"
  by (auto simp: removed_paths_def)

lemma os_remove_cases:
  "os_path_isfile w p \<Longrightarrow> removable w p \<Longrightarrow> os_remove p w = Inr (w\<lparr>fs := unlinked p (fs w)\<rparr>)"
  "os_path_isfile w p \<Longrightarrow> \<not> removable w p \<Longrightarrow>
     \<exists>n e. fs w p = Some n \<and> kind n = Regular \<and> remove_error n = Some e \<and> os_remove p w = Inl e"
  "\<not> os_path_isfile w p \<Longrightarrow> \<not> removable w p"
  by (auto simp: os_remove_def os_path_isfile_def removable_def split: option.splits)


lemma world_fs_printed:
  "printed (print s (w\<lparr>fs := g\<rparr>)) out\<lparr>fs := h\<rparr> = (printed w (s # out))\<lparr>fs := h\<rparr>"
  "printed (print s w) out\<lparr>fs := h\<rparr> = (printed w (s # out))\<lparr>fs := h\<rparr>"
  "(printed w [])\<lparr>fs := fs w\<rparr> = w"
  by (simp_all add: printed_def print_def)

lemma delete_matching_result:
  "\<exists>out. delete_matching target items d w
           = (d + card (removed_paths w target items),
              (printed w out)\<lparr>fs := removed_fs (removed_paths w target items) (fs w)\<rparr>)
        \<and> (\<forall>item \<in> set items. \<forall>n e.
               fs w (os_path_join target (Name item)) = Some n \<and> kind n = Regular
               \<and> remove_error n = Some e \<longrightarrow> error_line item e \<in> set out)"
proof (induction items arbitrary: d w)
  case Nil
  have "delete_matching target [] d w
          = (d + card (removed_paths w target []),
             (printed w [])\<lparr>fs := removed_fs (removed_paths w target []) (fs w)\<rparr>)"
    by (simp add: removed_paths_def removed_fs_empty world_fs_printed(3))
  then show ?case by auto
next
  case (Cons item rest)
  let ?p = "os_path_join target (Name item)"
  let ?S = "removed_paths w target rest"
  show ?case
  proof (cases "os_path_isfile w ?p")
    case False
    then have nr: "\<not> removable w ?p" by (rule os_remove_cases(3))
    from Cons.IH [of d w] obtain out where
      r: "delete_matching target rest d w
            = (d + card ?S, (printed w out)\<lparr>fs := removed_fs ?S (fs w)\<rparr>)"
      and l: "\<forall>item \<in> set rest. \<forall>n e.
               fs w (os_path_join target (Name item)) = Some n \<and> kind n = Regular
               \<and> remove_error n = Some e \<longrightarrow> error_line item e \<in> set out"
      by blast
    have "delete_matching target (item # rest) d w
            = (d + card (removed_paths w target (item # rest)),
               (printed w out)\<lparr>fs := removed_fs (removed_paths w target (item # rest)) (fs w)\<rparr>)"
      using False nr r by (simp add: removed_paths_Cons)
    moreover have "\<forall>i \<in> set (item # rest). \<forall>n e.
               fs w (os_path_join target (Name i)) = Some n \<and> kind n = Regular
               \<and> remove_error n = Some e \<longrightarrow> error_line i e \<in> set out"
      using l False by (auto simp: os_path_isfile_def)
    ultimately show ?thesis by blast
  next
    case True
    show ?thesis
    proof (cases "removable w ?p")
      case False
      from os_remove_cases(2) [OF True False] obtain n0 e0 where
        n0: "fs w ?p = Some n0" "kind n0 = Regular" "remove_error n0 = Some e0"
        and rm: "os_remove ?p w = Inl e0" by blast
      let ?w1 = "print (error_line item e0) w"
      have same: "fs ?w1 = fs w" by simp
      from Cons.IH [of d ?w1] obtain out where
        r: "delete_matching target rest d ?w1
              = (d + card (removed_paths ?w1 target rest),
                 (printed ?w1 out)\<lparr>fs := removed_fs (removed_paths ?w1 target rest) (fs ?w1)\<rparr>)"
        and l: "\<forall>item \<in> set rest. \<forall>n e.
               fs ?w1 (os_path_join target (Name item)) = Some n \<and> kind n = Regular
               \<and> remove_error n = Some e \<longrightarrow> error_line item e \<in> set out"
        by blast
      have r': "delete_matching target rest d ?w1
              = (d + card ?S, (printed w (error_line item e0 # out))\<lparr>fs := removed_fs ?S (fs w)\<rparr>)"
        using r by (simp add: removed_paths_same_fs [OF same] world_fs_printed(2))
      have "delete_matching target (item # rest) d w
            = (d + card (removed_paths w target (item # rest)),
               (printed w (error_line item e0 # out))
                 \<lparr>fs := removed_fs (removed_paths w target (item # rest)) (fs w)\<rparr>)"
        using True False rm r' by (simp add: removed_paths_Cons error_line_def)
      moreover have "\<forall>i \<in> set (item # rest). \<forall>n e.
               fs w (os_path_join target (Name i)) = Some n \<and> kind n = Regular
               \<and> remove_error n = Some e \<longrightarrow> error_line i e \<in> set (error_line item e0 # out)"
        using l n0 by auto
      ultimately show ?thesis by blast
    next
      case rem: True
      let ?line = "''  '' @ check_mark @ '' Deleted: '' @ Name item"
      let ?w1 = "print ?line (w\<lparr>fs := unlinked ?p (fs w)\<rparr>)"
      have rm: "os_remove ?p w = Inr (w\<lparr>fs := unlinked ?p (fs w)\<rparr>)"
        by (rule os_remove_cases(1) [OF True rem])
      have f1: "fs ?w1 = unlinked ?p (fs w)" by simp
      from Cons.IH [of "d + 1" ?w1] obtain out where
        r: "delete_matching target rest (d + 1) ?w1
              = (d + 1 + card (removed_paths ?w1 target rest),
                 (printed ?w1 out)\<lparr>fs := removed_fs (removed_paths ?w1 target rest) (fs ?w1)\<rparr>)"
        and l: "\<forall>item \<in> set rest. \<forall>n e.
               fs ?w1 (os_path_join target (Name item)) = Some n \<and> kind n = Regular
               \<and> remove_error n = Some e \<longrightarrow> error_line item e \<in> set out"
        by blast
      have R1: "removed_paths ?w1 target rest = ?S - {?p}"
        by (rule removed_paths_after_unlink [OF f1])
      have ins: "insert ?p (?S - {?p}) = insert ?p ?S" by auto
      have fsq: "removed_fs (?S - {?p}) (unlinked ?p (fs w)) = removed_fs (insert ?p ?S) (fs w)"
        by (simp only: unlinked_removed_fs removed_fs_insert ins)
      have cd: "d + 1 + card (?S - {?p}) = d + card (insert ?p ?S)"
        using finite_removed_paths [of w target rest] by (simp add: card.insert_remove)
      have r': "delete_matching target rest (d + 1) ?w1
              = (d + card (insert ?p ?S),
                 (printed w (?line # out))\<lparr>fs := removed_fs (insert ?p ?S) (fs w)\<rparr>)"
        using r unfolding R1 f1 fsq cd world_fs_printed(1) .
      have "delete_matching target (item # rest) d w
            = (d + card (removed_paths w target (item # rest)),
               (printed w (?line # out))
                 \<lparr>fs := removed_fs (removed_paths w target (item # rest)) (fs w)\<rparr>)"
        using True rem rm r' by (simp add: removed_paths_Cons Let_def)
      moreover have "\<forall>i \<in> set (item # rest). \<forall>n e.
               fs w (os_path_join target (Name i)) = Some n \<and> kind n = Regular
               \<and> remove_error n = Some e \<longrightarrow> error_line i e \<in> set (?line # out)"
      proof (intro ballI allI impI)
        fix i n e
        assume i: "i \<in> set (item # rest)"
          and h: "fs w (os_path_join target (Name i)) = Some n \<and> kind n = Regular
                  \<and> remove_error n = Some e"
        let ?q = "os_path_join target (Name i)"
        have ne: "?q \<noteq> ?p" using h rem by (auto simp: removable_def)
        then have "i \<noteq> item" by auto
        with i have ir: "i \<in> set rest" by simp
        have "\<exists>n'. fs ?w1 ?q = Some n' \<and> kind n' = Regular \<and> remove_error n' = Some e"
          using h ne by (simp add: unlinked_def)
        with l ir have "error_line i e \<in> set out" by blast
        then show "error_line i e \<in> set (?line # out)" by simp
      qed
      ultimately show ?thesis by blast
    qed
  qed
qed

lemma print_names_printed:
  "print_names items w = printed w (map (\<lambda>item. ''  - '' @ Name item) items)"
proof (induction items arbitrary: w)
  case Nil
  then show ?case by (simp add: printed_def)
next
  case (Cons item rest)
  then show ?case by (simp add: print_printed(2))
qed

lemma print_warning_printed: "\<exists>pre. print_warning w = printed w pre"
  by (auto simp: print_warning_def print_printed)

lemma delete_filtered_yes:
  assumes "data \<noteq> []" "stdin w2 = confirm # rest" "py_lower confirm = ''yes''"
  shows "\<exists>out. delete_filtered target (Some data) w2
           = Inr ((printed (w2\<lparr>stdin := rest\<rparr>)
                     (out @ [nl @ check_mark @ '' Deleted ''
                             @ str_nat (card (removed_paths w2 target data)) @ ''/''
                             @ str_nat (length data) @ '' file(s)'']))
                  \<lparr>fs := removed_fs (removed_paths w2 target data) (fs w2)\<rparr>)
        \<and> (\<forall>item \<in> set data. \<forall>n e.
               fs w2 (os_path_join target (Name item)) = Some n \<and> kind n = Regular
               \<and> remove_error n = Some e \<longrightarrow> error_line item e \<in> set out)"
proof -
  obtain item items where d: "data = item # items" using assms(1) by (cases data) auto
  let ?hdr = "nl @ ''Files to delete ('' @ str_nat (length data) @ ''):''"
  let ?names = "map (\<lambda>item. ''  - '' @ Name item) data"
  let ?prompt = "nl @ ''Delete all '' @ str_nat (length data) @ '' file(s)? (yes/no): ''"
  let ?w1 = "print_names data (print ?hdr w2)"
  have w1: "?w1 = printed w2 (?hdr # ?names)"
    by (simp only: print_names_printed print_printed(2))
  have in1: "stdin ?w1 = confirm # rest" unfolding w1 using assms(2) by simp
  let ?w3 = "asked ?w1 ?prompt rest"
  have inp: "input_line ?prompt ?w1 = Inr (confirm, ?w3)" by (rule input_line_asked [OF in1])
  have f3: "fs ?w3 = fs w2" unfolding w1 by simp
  let ?R = "removed_paths w2 target data"
  from delete_matching_result [of target data 0 ?w3] obtain out where
    dm: "delete_matching target data 0 ?w3
           = (0 + card (removed_paths ?w3 target data),
              (printed ?w3 out)\<lparr>fs := removed_fs (removed_paths ?w3 target data) (fs ?w3)\<rparr>)"
    and el: "\<forall>item \<in> set data. \<forall>n e.
               fs ?w3 (os_path_join target (Name item)) = Some n \<and> kind n = Regular
               \<and> remove_error n = Some e \<longrightarrow> error_line item e \<in> set out"
    by blast
  have dm': "delete_matching target data 0 ?w3
           = (card ?R, (printed ?w3 out)\<lparr>fs := removed_fs ?R (fs w2)\<rparr>)"
    using dm by (simp only: removed_paths_same_fs [OF f3] f3 add_0)
  let ?final = "nl @ check_mark @ '' Deleted '' @ str_nat (card ?R) @ ''/''
                @ str_nat (length data) @ '' file(s)''"
  have "delete_filtered target (Some data) w2
          = Inr (print ?final ((printed ?w3 out)\<lparr>fs := removed_fs ?R (fs w2)\<rparr>))"
    unfolding delete_filtered_def d [symmetric]
    using inp dm' assms(3) by (simp add: d Let_def)
  moreover have "print ?final ((printed ?w3 out)\<lparr>fs := removed_fs ?R (fs w2)\<rparr>)
      = (printed (w2\<lparr>stdin := rest\<rparr>) (((?hdr # ?names) @ [?prompt] @ out) @ [?final]))
          \<lparr>fs := removed_fs ?R (fs w2)\<rparr>"
    unfolding w1 by (simp add: printed_def print_def asked_def)
  moreover have "\<forall>item \<in> set data. \<forall>n e.
               fs w2 (os_path_join target (Name item)) = Some n \<and> kind n = Regular
               \<and> remove_error n = Some e \<longrightarrow> error_line item e \<in> set ((?hdr # ?names) @ [?prompt] @ out)"
    using el f3 by auto
  ultimately show ?thesis by metis
qed


lemma choice_4_directory_filtered:
  assumes "stdin w = target # rest" "os_path_isdir w target"
  shows "\<exists>pre. choice_4 fuel (Some c) w
           = (case collect_files fuel target (Some c) (printed (w\<lparr>stdin := rest\<rparr>) pre) of
                None \<Rightarrow> None
              | Some (data, w2) \<Rightarrow> Some (delete_filtered target data w2))"
proof -
  obtain pre where pw: "print_warning w = printed w pre" using print_warning_printed by blast
  let ?prompt = "nl @ ''Enter path to delete: ''"
  let ?w1 = "asked (print_warning w) ?prompt rest"
  let ?act = "nl @ ''Filters active - will delete only matching files in directory.''"
  have "stdin (print_warning w) = target # rest" using assms(1) by (simp add: pw)
  then have inp: "input_line ?prompt (print_warning w) = Inr (target, ?w1)"
    by (rule input_line_asked)
  have "fs ?w1 = fs w" by (simp add: pw)
  then have d: "os_path_isdir ?w1 target" using assms(2) by (simp add: os_path_isdir_def)
  have w1: "print ?act ?w1 = printed (w\<lparr>stdin := rest\<rparr>) (pre @ [?prompt, ?act])"
    unfolding pw by (simp add: printed_def print_def asked_def)
  have "choice_4 fuel (Some c) w
          = (case collect_files fuel target (Some c) (print ?act ?w1) of
               None \<Rightarrow> None
             | Some (data, w2) \<Rightarrow> Some (delete_filtered target data w2))"
    unfolding choice_4_def using inp d isdir_exists_not_file [OF d] by simp
  then show ?thesis unfolding w1 by blast
qed

lemma exists_after_removal:
  "fs w' = removed_fs R (fs w) \<Longrightarrow> os_path_exists w' q = (os_path_exists w q \<and> q \<notin> R)"
  by (cases "fs w q") (auto simp: os_path_exists_def removed_fs_def)

lemma isdir_after_removal:
  assumes "fs w' = removed_fs (removed_paths w target data) (fs w)"
  shows "os_path_isdir w' q = os_path_isdir w q"
proof (cases "fs w q")
  case None
  then show ?thesis using assms by (simp add: os_path_isdir_def removed_fs_def)
next
  case (Some n)
  show ?thesis
  proof (cases "q \<in> removed_paths w target data")
    case True
    then have "kind n = Regular" using Some by (simp add: removed_paths_def removable_def)
    then show ?thesis using assms Some True by (simp add: os_path_isdir_def removed_fs_def)
  next
    case False
    then show ?thesis using assms Some by (simp add: os_path_isdir_def removed_fs_def)
  qed
qed

lemma removed_paths_are_matched_files:
  "q \<in> removed_paths w target data \<Longrightarrow>
   os_path_isfile w q \<and> q \<in> (\<lambda>item. os_path_join target (Name item)) ` set data"
  by (auto simp: removed_paths_def removable_def os_path_isfile_def split: option.splits)

lemma one_match_example:
  assumes "names = [f, g] \<or> names = [g, f]"
    and "\<not> filtered_out criteria w f (os_path_join target f) (os_path_isdir w (os_path_join target f))"
    and "filtered_out criteria w g (os_path_join target g) (os_path_isdir w (os_path_join target g))"
    and "removable w (os_path_join target f)"
  shows "removed_paths w target (collect_entries criteria w target names) = {os_path_join target f}"
    and "length (collect_entries criteria w target names) = 1"
  using assms by (auto simp: Let_def removed_paths_def)

text \<open>
  C7. \<open>choice_4\<close> on an existing directory with a filter that is not the tree mode, a
  readable listing, at least one matched entry and the answer \<^verbatim>\<open>yes\<close>: the run ends, and
  the file system it leaves is the one before without the paths \<open>R\<close>, the matched entries
  that are regular files \<^verbatim>\<open>os.remove\<close> accepts. So exactly those paths stop existing,
  every directory stays a directory, every matched file that can be removed is removed
  whatever failed before it, every matched file whose removal fails stays and has its
  error line printed, and the last line reports the number of removals out of the number
  of matched entries. For a directory that lists one matching file that can be removed
  and one entry that does not match, \<open>R\<close> is that one file and the report is 1 of 1.
\<close>

theorem filtered_delete_removes_matched_files:
  assumes "stdin w = target # confirm # rest" and "py_lower confirm = ''yes''"
    and "os_path_isdir w target" and "\<not> show_tree c" and "os_listdir w target = Inr names"
    and "data = collect_entries (Some c) w target names" and "data \<noteq> []"
    and "R = removed_paths w target data"
  shows "\<exists>w' out.
           choice_4 fuel (Some c) w = Some (Inr w')
         \<and> w' = (printed (w\<lparr>stdin := rest\<rparr>)
                    (out @ [nl @ check_mark @ '' Deleted '' @ str_nat (card R) @ ''/''
                            @ str_nat (length data) @ '' file(s)'']))
                 \<lparr>fs := removed_fs R (fs w)\<rparr>
         \<and> (\<forall>q. os_path_exists w' q = (os_path_exists w q \<and> q \<notin> R))
         \<and> (\<forall>q. os_path_isdir w' q = os_path_isdir w q)
         \<and> (\<forall>q \<in> R. os_path_isfile w q
                      \<and> q \<in> (\<lambda>item. os_path_join target (Name item)) ` set data)
         \<and> (\<forall>item \<in> set data. removable w (os_path_join target (Name item)) \<longrightarrow>
               \<not> os_path_exists w' (os_path_join target (Name item)))
         \<and> (\<forall>item \<in> set data. \<forall>n e.
               fs w (os_path_join target (Name item)) = Some n \<and> kind n = Regular
               \<and> remove_error n = Some e \<longrightarrow>
               os_path_exists w' (os_path_join target (Name item)) \<and> error_line item e \<in> set out)
         \<and> (\<forall>f g. (names = [f, g] \<or> names = [g, f])
                \<and> should_include c w f (os_path_join target f) (os_path_isdir w (os_path_join target f))
                \<and> \<not> should_include c w g (os_path_join target g) (os_path_isdir w (os_path_join target g))
                \<and> removable w (os_path_join target f) \<longrightarrow>
                R = {os_path_join target f} \<and> card R = 1 \<and> length data = 1)"
proof -
  obtain pre where c4: "choice_4 fuel (Some c) w
           = (case collect_files fuel target (Some c) (printed (w\<lparr>stdin := confirm # rest\<rparr>) pre) of
                None \<Rightarrow> None
              | Some (data, w2) \<Rightarrow> Some (delete_filtered target data w2))"
    using choice_4_directory_filtered [OF assms(1) assms(3)] by blast
  let ?w1 = "printed (w\<lparr>stdin := confirm # rest\<rparr>) pre"
  have f1: "fs ?w1 = fs w" "time_time ?w1 = time_time w" by simp_all
  have d1: "os_path_isdir ?w1 target" using assms(3) by (simp add: os_path_isdir_def)
  have l1: "os_listdir ?w1 target = Inr names" using assms(5) by (simp add: os_listdir_def)
  have nt: "\<not> tree_mode (Some c)" using assms(4) by (simp add: tree_mode_def)
  have e1: "collect_entries (Some c) ?w1 target names = data"
    unfolding assms(6) by (rule collect_entries_depends [OF f1])
  let ?line = "nl @ check_mark @ '' Collected '' @ str_nat (length data) @ '' item(s) matching filters''"
  let ?w2 = "printed ?w1 [?line]"
  have cf: "collect_files fuel target (Some c) ?w1 = Some (Some data, ?w2)"
    using collect_files_regular [OF d1 nt l1, of fuel] unfolding e1 .
  have in2: "stdin ?w2 = confirm # rest" by simp
  have f2: "fs ?w2 = fs w" by simp
  have R2: "removed_paths ?w2 target data = R"
    unfolding assms(8) by (rule removed_paths_same_fs [OF f2])
  let ?final = "nl @ check_mark @ '' Deleted '' @ str_nat (card R) @ ''/''
                @ str_nat (length data) @ '' file(s)''"
  from delete_filtered_yes [OF assms(7) in2 assms(2), of target] obtain out where
    df: "delete_filtered target (Some data) ?w2
           = Inr ((printed (?w2\<lparr>stdin := rest\<rparr>) (out @ [?final]))\<lparr>fs := removed_fs R (fs ?w2)\<rparr>)"
    and el: "\<forall>item \<in> set data. \<forall>n e.
               fs ?w2 (os_path_join target (Name item)) = Some n \<and> kind n = Regular
               \<and> remove_error n = Some e \<longrightarrow> error_line item e \<in> set out"
    unfolding R2 by blast
  let ?w' = "(printed (w\<lparr>stdin := rest\<rparr>) ((pre @ [?line] @ out) @ [?final]))\<lparr>fs := removed_fs R (fs w)\<rparr>"
  have eq: "(printed (?w2\<lparr>stdin := rest\<rparr>) (out @ [?final]))\<lparr>fs := removed_fs R (fs ?w2)\<rparr> = ?w'"
    by (simp add: printed_def)
  have run: "choice_4 fuel (Some c) w = Some (Inr ?w')"
    unfolding c4 cf using df eq by simp
  have fw: "fs ?w' = removed_fs (removed_paths w target data) (fs w)"
    unfolding assms(8) by simp
  have ex: "\<forall>q. os_path_exists ?w' q = (os_path_exists w q \<and> q \<notin> R)"
    using exists_after_removal [OF fw] unfolding assms(8) by blast
  have dir: "\<forall>q. os_path_isdir ?w' q = os_path_isdir w q"
    using isdir_after_removal [OF fw] by blast
  have mf: "\<forall>q \<in> R. os_path_isfile w q
                      \<and> q \<in> (\<lambda>item. os_path_join target (Name item)) ` set data"
    unfolding assms(8) using removed_paths_are_matched_files by blast
  have all: "\<forall>item \<in> set data. removable w (os_path_join target (Name item)) \<longrightarrow>
               \<not> os_path_exists ?w' (os_path_join target (Name item))"
    using ex unfolding assms(8) by (simp add: removed_paths_def)
  have err: "\<forall>item \<in> set data. \<forall>n e.
               fs w (os_path_join target (Name item)) = Some n \<and> kind n = Regular
               \<and> remove_error n = Some e \<longrightarrow>
               os_path_exists ?w' (os_path_join target (Name item))
               \<and> error_line item e \<in> set (pre @ [?line] @ out)"
  proof (intro ballI allI impI)
    fix item n e
    assume i: "item \<in> set data"
      and h: "fs w (os_path_join target (Name item)) = Some n \<and> kind n = Regular
              \<and> remove_error n = Some e"
    have "os_path_join target (Name item) \<notin> R"
      unfolding assms(8) using h by (simp add: removed_paths_def removable_def)
    moreover have "os_path_exists w (os_path_join target (Name item))"
      using h by (simp add: os_path_exists_def)
    moreover have "error_line item e \<in> set out" using el i h f2 by auto
    ultimately show "os_path_exists ?w' (os_path_join target (Name item))
               \<and> error_line item e \<in> set (pre @ [?line] @ out)"
      using ex by simp
  qed
  have one: "\<forall>f g. (names = [f, g] \<or> names = [g, f])
                \<and> should_include c w f (os_path_join target f) (os_path_isdir w (os_path_join target f))
                \<and> \<not> should_include c w g (os_path_join target g) (os_path_isdir w (os_path_join target g))
                \<and> removable w (os_path_join target f) \<longrightarrow>
                R = {os_path_join target f} \<and> card R = 1 \<and> length data = 1"
  proof (intro allI impI)
    fix f g
    assume h: "(names = [f, g] \<or> names = [g, f])
                \<and> should_include c w f (os_path_join target f) (os_path_isdir w (os_path_join target f))
                \<and> \<not> should_include c w g (os_path_join target g) (os_path_isdir w (os_path_join target g))
                \<and> removable w (os_path_join target f)"
    then have a: "names = [f, g] \<or> names = [g, f]"
      and b: "\<not> filtered_out (Some c) w f (os_path_join target f) (os_path_isdir w (os_path_join target f))"
      and c: "filtered_out (Some c) w g (os_path_join target g) (os_path_isdir w (os_path_join target g))"
      and d: "removable w (os_path_join target f)"
      by (simp_all add: filtered_out_def)
    from one_match_example [OF a b c d]
    show "R = {os_path_join target f} \<and> card R = 1 \<and> length data = 1"
      unfolding assms(8) assms(6) by simp
  qed
  from run ex dir mf all err one show ?thesis by blast
qed

lemma example_reads:
  "fs (example_world inp) = example_fs" "stdin (example_world inp) = inp"
  "stdout (example_world inp) = []" "time_time (example_world inp) = 100"
  by (simp_all add: example_world_def)

lemma example_only_json:
  "should_include (FilterCriteria_init\<lparr>only_json := True\<rparr>) (example_world inp) ''a.json''
     (os_path_join ''d'' ''a.json'') (os_path_isdir (example_world inp) (os_path_join ''d'' ''a.json''))"
  "\<not> should_include (FilterCriteria_init\<lparr>only_json := True\<rparr>) (example_world inp) ''b.txt''
     (os_path_join ''d'' ''b.txt'') (os_path_isdir (example_world inp) (os_path_join ''d'' ''b.txt''))"
  by (simp_all add: should_include_def FilterCriteria_init_def size_filters_exclude_def
      os_path_join_def endswith_def py_lower_def lower_char_def os_path_isdir_def
      os_path_getsize_def example_reads example_fs_def regular_file_def)

theorem filtered_delete_removes_matched_files_witness:
  "\<exists>w' out.
      choice_4 0 (Some (FilterCriteria_init\<lparr>only_json := True\<rparr>)) (example_world [''d'', ''yes''])
        = Some (Inr w')
    \<and> w' = (printed ((example_world [''d'', ''yes''])\<lparr>stdin := []\<rparr>)
               (out @ [nl @ check_mark @ '' Deleted 1/1 file(s)'']))
            \<lparr>fs := removed_fs {''d/a.json''} example_fs\<rparr>
    \<and> \<not> os_path_exists w' ''d/a.json''
    \<and> os_path_exists w' ''d/b.txt''
    \<and> os_path_isdir w' ''d''"
proof -
  define w where "w = example_world [''d'', ''yes'']"
  define c where "c = FilterCriteria_init\<lparr>only_json := True\<rparr>"
  define data where "data = collect_entries (Some c) w ''d'' [''a.json'', ''b.txt'']"
  define R where "R = removed_paths w ''d'' data"
  have a: "stdin w = ''d'' # ''yes'' # []" by (simp add: w_def example_reads)
  have b: "py_lower ''yes'' = ''yes''" by (simp add: py_lower_def lower_char_def)
  have d: "os_path_isdir w ''d''"
    by (simp add: w_def os_path_isdir_def example_reads example_fs_def directory_def)
  have t: "\<not> show_tree c" by (simp add: c_def FilterCriteria_init_def)
  have e: "os_listdir w ''d'' = Inr [''a.json'', ''b.txt'']"
    by (simp add: w_def os_listdir_def example_reads example_fs_def directory_def)
  have inc: "should_include c w ''a.json'' (os_path_join ''d'' ''a.json'')
               (os_path_isdir w (os_path_join ''d'' ''a.json''))"
    unfolding c_def w_def by (rule example_only_json(1))
  have exc: "\<not> should_include c w ''b.txt'' (os_path_join ''d'' ''b.txt'')
               (os_path_isdir w (os_path_join ''d'' ''b.txt''))"
    unfolding c_def w_def by (rule example_only_json(2))
  have f: "data \<noteq> []"
    unfolding data_def using inc by (simp add: Let_def filtered_out_def)
  have rm: "removable w (os_path_join ''d'' ''a.json'')"
    by (simp add: w_def removable_def os_path_join_def endswith_def example_reads example_fs_def
        regular_file_def)
  from filtered_delete_removes_matched_files [OF a b d t e data_def f R_def, of 0]
  obtain w' out where run: "choice_4 0 (Some c) w = Some (Inr w')"
    and shape: "w' = (printed (w\<lparr>stdin := []\<rparr>)
                        (out @ [nl @ check_mark @ '' Deleted '' @ str_nat (card R) @ ''/''
                                @ str_nat (length data) @ '' file(s)'']))
                     \<lparr>fs := removed_fs R (fs w)\<rparr>"
    and ex: "\<forall>q. os_path_exists w' q = (os_path_exists w q \<and> q \<notin> R)"
    and dir: "\<forall>q. os_path_isdir w' q = os_path_isdir w q"
    and one: "\<forall>f g. ([''a.json'', ''b.txt''] = [f, g] \<or> [''a.json'', ''b.txt''] = [g, f])
                \<and> should_include c w f (os_path_join ''d'' f) (os_path_isdir w (os_path_join ''d'' f))
                \<and> \<not> should_include c w g (os_path_join ''d'' g) (os_path_isdir w (os_path_join ''d'' g))
                \<and> removable w (os_path_join ''d'' f) \<longrightarrow>
                R = {os_path_join ''d'' f} \<and> card R = 1 \<and> length data = 1"
    by (elim exE conjE) (rule that)
  have "([''a.json'', ''b.txt''] = [''a.json'', ''b.txt''] \<or> [''a.json'', ''b.txt''] = [''b.txt'', ''a.json''])
                \<and> should_include c w ''a.json'' (os_path_join ''d'' ''a.json'') (os_path_isdir w (os_path_join ''d'' ''a.json''))
                \<and> \<not> should_include c w ''b.txt'' (os_path_join ''d'' ''b.txt'') (os_path_isdir w (os_path_join ''d'' ''b.txt''))
                \<and> removable w (os_path_join ''d'' ''a.json'')"
    using inc exc rm by simp
  with one have R1: "R = {os_path_join ''d'' ''a.json''} \<and> card R = 1 \<and> length data = 1"
    by (elim allE impE) assumption
  have j: "os_path_join ''d'' ''a.json'' = ''d/a.json''"
    by (simp add: os_path_join_def endswith_def)
  have R: "R = {''d/a.json''}" and cd: "card R = 1" and ln: "length data = 1"
    using R1 j by simp_all
  have one_str: "str_nat 1 = ''1''" by (simp add: str_nat.simps digit_char_def)
  have fw: "fs w = example_fs" by (simp add: w_def example_reads)
  have shape': "w' = (printed (w\<lparr>stdin := []\<rparr>)
               (out @ [nl @ check_mark @ '' Deleted 1/1 file(s)'']))
            \<lparr>fs := removed_fs {''d/a.json''} example_fs\<rparr>"
    using shape one_str unfolding cd ln fw R by simp
  have gone: "\<not> os_path_exists w' ''d/a.json''" using ex R by simp
  have "os_path_exists w ''d/b.txt''"
    by (simp add: w_def os_path_exists_def example_reads example_fs_def)
  then have kept: "os_path_exists w' ''d/b.txt''" using ex R by simp
  have dkept: "os_path_isdir w' ''d''" using dir d by simp
  from run shape' gone kept dkept
  have "choice_4 0 (Some c) w = Some (Inr w')
    \<and> w' = (printed (w\<lparr>stdin := []\<rparr>) (out @ [nl @ check_mark @ '' Deleted 1/1 file(s)'']))
            \<lparr>fs := removed_fs {''d/a.json''} example_fs\<rparr>
    \<and> \<not> os_path_exists w' ''d/a.json''
    \<and> os_path_exists w' ''d/b.txt''
    \<and> os_path_isdir w' ''d''"
    by (intro conjI)
  then show ?thesis unfolding w_def c_def by (intro exI)
qed

subsection \<open>Absence and the empty list\<close>







end
